theory Spec2Isabelle
  imports Main
begin

section \<open>Python values\<close>

text \<open>
  The program is \<^verbatim>\<open>tpm-read-write.py\<close>: a key-value store on the NV indices of a TPM,
  driven through the \<^verbatim>\<open>tpm2-tools\<close> command line programs. A Python \<^verbatim>\<open>str\<close> is a list
  of Unicode code points, a \<^verbatim>\<open>bytes\<close> object a list of numbers below 256.
\<close>

type_synonym str = "nat list"
type_synonym bytes = "nat list"

definition lit :: "string \<Rightarrow> str" where
  "lit s = map of_char s"

text \<open>
  What \<^verbatim>\<open>yaml.safe_load_all\<close> hands to the program, and what \<^verbatim>\<open>hexify\<close> makes of it.
  \<open>PHexInt\<close> is an instance of the class \<^verbatim>\<open>HexInt(int)\<close>. A set is the list of its elements
  and a dict the list of its items, both in insertion order.
\<close>

datatype pyval =
    PNone
  | PBool bool
  | PInt int
  | PHexInt int
  | PStr str
  | PList "pyval list"
  | PTuple "pyval list"
  | PSet "pyval list"
  | PDict "(pyval \<times> pyval) list"

text \<open>\<^verbatim>\<open>bool\<close> and \<^verbatim>\<open>HexInt\<close> are subclasses of \<^verbatim>\<open>int\<close>: the integer an object stands for.\<close>

fun int_value :: "pyval \<Rightarrow> int option" where
  "int_value (PBool b) = Some (if b then 1 else 0)"
| "int_value (PInt i) = Some i"
| "int_value (PHexInt i) = Some i"
| "int_value _ = None"

text \<open>
  Python's \<^verbatim>\<open>==\<close>. Numbers compare by value whatever their class, sequences element by
  element, sets and dicts by size and membership.
\<close>

fun py_eq :: "pyval \<Rightarrow> pyval \<Rightarrow> bool" where
  "py_eq PNone y = (y = PNone)"
| "py_eq (PBool b) y = (int_value y = Some (if b then 1 else 0))"
| "py_eq (PInt i) y = (int_value y = Some i)"
| "py_eq (PHexInt i) y = (int_value y = Some i)"
| "py_eq (PStr s) y = (y = PStr s)"
| "py_eq (PList xs) y = (case y of PList ys \<Rightarrow> list_all2 py_eq xs ys | _ \<Rightarrow> False)"
| "py_eq (PTuple xs) y = (case y of PTuple ys \<Rightarrow> list_all2 py_eq xs ys | _ \<Rightarrow> False)"
| "py_eq (PSet xs) y = (case y of PSet ys \<Rightarrow>
      length xs = length ys \<and> (\<forall>x\<in>set xs. \<exists>y\<in>set ys. py_eq x y) | _ \<Rightarrow> False)"
| "py_eq (PDict kvs) y = (case y of PDict kws \<Rightarrow>
      length kvs = length kws \<and>
      (\<forall>kv\<in>set kvs. \<exists>kw\<in>set kws. py_eq (fst kv) (fst kw) \<and> py_eq (snd kv) (snd kw))
    | _ \<Rightarrow> False)"

text \<open>\<^verbatim>\<open>d[k] = v\<close>: an equal key keeps its place and takes the new value.\<close>

fun dict_setitem :: "(pyval \<times> pyval) list \<Rightarrow> pyval \<Rightarrow> pyval \<Rightarrow> (pyval \<times> pyval) list" where
  "dict_setitem [] k v = [(k, v)]"
| "dict_setitem ((k', v') # kvs) k v =
     (if py_eq k' k then (k', v) # kvs else (k', v') # dict_setitem kvs k v)"

text \<open>\<^verbatim>\<open>s.add(x)\<close>: an element equal to one already there is dropped.\<close>

fun set_add :: "pyval list \<Rightarrow> pyval \<Rightarrow> pyval list" where
  "set_add [] x = [x]"
| "set_add (y # ys) x = (if py_eq y x then y # ys else y # set_add ys x)"

text \<open>
  \<^verbatim>\<open>hexify\<close> (lines 76-89). The dict and set comprehensions build a new container by
  inserting the converted items one after the other.
\<close>

fun hexify :: "pyval \<Rightarrow> pyval" where
  "hexify (PBool b) = PBool b"
| "hexify (PInt i) = PHexInt i"
| "hexify (PHexInt i) = PHexInt i"
| "hexify (PDict kvs) =
     PDict (foldl (\<lambda>d kv. dict_setitem d (fst kv) (snd kv)) []
              (map (\<lambda>kv. (hexify (fst kv), hexify (snd kv))) kvs))"
| "hexify (PList xs) = PList (map hexify xs)"
| "hexify (PTuple xs) = PTuple (map hexify xs)"
| "hexify (PSet xs) = PSet (foldl set_add [] (map hexify xs))"
| "hexify PNone = PNone"
| "hexify (PStr s) = PStr s"

text \<open>
  The values Python can build: the elements of a set and the keys of a dict are hashable
  (no list, set or dict inside) and pairwise different.
\<close>

fun hashable :: "pyval \<Rightarrow> bool" where
  "hashable (PList xs) = False"
| "hashable (PSet xs) = False"
| "hashable (PDict kvs) = False"
| "hashable (PTuple xs) = (\<forall>x\<in>set xs. hashable x)"
| "hashable v = True"

fun py_distinct :: "pyval list \<Rightarrow> bool" where
  "py_distinct [] = True"
| "py_distinct (x # xs) = ((\<forall>y\<in>set xs. \<not> py_eq x y) \<and> py_distinct xs)"

fun well_formed :: "pyval \<Rightarrow> bool" where
  "well_formed (PList xs) = (\<forall>x\<in>set xs. well_formed x)"
| "well_formed (PTuple xs) = (\<forall>x\<in>set xs. well_formed x)"
| "well_formed (PSet xs) = ((\<forall>x\<in>set xs. hashable x \<and> well_formed x) \<and> py_distinct xs)"
| "well_formed (PDict kvs) =
     ((\<forall>kv\<in>set kvs. hashable (fst kv) \<and> well_formed (fst kv) \<and> well_formed (snd kv))
      \<and> py_distinct (map fst kvs))"
| "well_formed v = True"

text \<open>A hashable value with every number in it turned into a plain \<open>PInt\<close>.\<close>

fun canon :: "pyval \<Rightarrow> pyval" where
  "canon (PBool b) = PInt (if b then 1 else 0)"
| "canon (PHexInt i) = PInt i"
| "canon (PTuple xs) = PTuple (map canon xs)"
| "canon v = v"

section \<open>Text and numbers\<close>

text \<open>\<^verbatim>\<open>str(n)\<close>, \<^verbatim>\<open>hex(n)\<close> and the format \<^verbatim>\<open>{n:x}\<close> of an integer.\<close>

definition digit_char :: "nat \<Rightarrow> nat" where
  "digit_char d = (if d < 10 then 48 + d else 87 + d)"

function digits :: "nat \<Rightarrow> nat \<Rightarrow> str" where
  "digits b n =
     (if b < 2 \<or> n < b then [digit_char n] else digits b (n div b) @ [digit_char (n mod b)])"
  by pat_completeness auto
termination
  by (relation "measure snd") auto

declare digits.simps [simp del]

definition int_str :: "int \<Rightarrow> str" where
  "int_str i = (if i < 0 then 45 # digits 10 (nat (- i)) else digits 10 (nat i))"

definition int_format_x :: "int \<Rightarrow> str" where
  "int_format_x i = (if i < 0 then 45 # digits 16 (nat (- i)) else digits 16 (nat i))"

definition int_hex :: "int \<Rightarrow> str" where
  "int_hex i = (if i < 0 then lit ''-0x'' @ digits 16 (nat (- i)) else lit ''0x'' @ digits 16 (nat i))"

text \<open>
  \<^verbatim>\<open>s.encode("utf-8")\<close> and \<^verbatim>\<open>b.decode()\<close>; \<open>None\<close> stands for \<^verbatim>\<open>UnicodeEncodeError\<close>
  (a surrogate) and \<^verbatim>\<open>UnicodeDecodeError\<close> (bytes that are no UTF-8).
\<close>

definition utf8_encode_char :: "nat \<Rightarrow> bytes option" where
  "utf8_encode_char c =
     (if c < 128 then Some [c]
      else if c < 2048 then Some [192 + c div 64, 128 + c mod 64]
      else if 55296 \<le> c \<and> c < 57344 then None
      else if c < 65536 then
        Some [224 + c div 4096, 128 + c div 64 mod 64, 128 + c mod 64]
      else if c < 1114112 then
        Some [240 + c div 262144, 128 + c div 4096 mod 64, 128 + c div 64 mod 64, 128 + c mod 64]
      else None)"

fun utf8_encode :: "str \<Rightarrow> bytes option" where
  "utf8_encode [] = Some []"
| "utf8_encode (c # cs) =
     (case utf8_encode_char c of
        None \<Rightarrow> None
      | Some bs \<Rightarrow> (case utf8_encode cs of None \<Rightarrow> None | Some r \<Rightarrow> Some (bs @ r)))"

definition continuation :: "nat \<Rightarrow> bool" where
  "continuation b = (128 \<le> b \<and> b < 192)"

definition cons_option :: "'a \<Rightarrow> 'a list option \<Rightarrow> 'a list option" where
  "cons_option x r = (case r of None \<Rightarrow> None | Some xs \<Rightarrow> Some (x # xs))"

fun utf8_decode :: "bytes \<Rightarrow> str option" where
  "utf8_decode [] = Some []"
| "utf8_decode (b0 # bs) =
     (if b0 < 128 then cons_option b0 (utf8_decode bs)
      else if 194 \<le> b0 \<and> b0 < 224 then
        (case bs of
           b1 # r \<Rightarrow>
             if continuation b1
             then cons_option ((b0 - 192) * 64 + (b1 - 128)) (utf8_decode r)
             else None
         | _ \<Rightarrow> None)
      else if 224 \<le> b0 \<and> b0 < 240 then
        (case bs of
           b1 # b2 # r \<Rightarrow>
             if continuation b1 \<and> continuation b2
                \<and> (b0 = 224 \<longrightarrow> 160 \<le> b1) \<and> (b0 = 237 \<longrightarrow> b1 < 160)
             then cons_option ((b0 - 224) * 4096 + (b1 - 128) * 64 + (b2 - 128)) (utf8_decode r)
             else None
         | _ \<Rightarrow> None)
      else if 240 \<le> b0 \<and> b0 < 245 then
        (case bs of
           b1 # b2 # b3 # r \<Rightarrow>
             if continuation b1 \<and> continuation b2 \<and> continuation b3
                \<and> (b0 = 240 \<longrightarrow> 144 \<le> b1) \<and> (b0 = 244 \<longrightarrow> b1 < 144)
             then cons_option
                    ((b0 - 240) * 262144 + (b1 - 128) * 4096 + (b2 - 128) * 64 + (b3 - 128))
                    (utf8_decode r)
             else None
         | _ \<Rightarrow> None)
      else None)"

text \<open>
  A \<^verbatim>\<open>str\<close> of ASCII characters only. UTF-8 encodes it as itself, one byte for each
  character, so that \<^verbatim>\<open>len(value)\<close> is also the number of bytes that are written.
\<close>

definition ascii :: "str \<Rightarrow> bool" where
  "ascii s = list_all (\<lambda>c. c < 128) s"

text \<open>The text mode of \<^verbatim>\<open>subprocess.run\<close>: decode, then turn every line end into a newline.\<close>

fun universal_newlines :: "str \<Rightarrow> str" where
  "universal_newlines [] = []"
| "universal_newlines [c] = (if c = 13 then [10] else [c])"
| "universal_newlines (c # d # cs) =
     (if c = 13 \<and> d = 10 then 10 # universal_newlines cs
      else if c = 13 then 10 # universal_newlines (d # cs)
      else c # universal_newlines (d # cs))"

definition text_mode :: "bytes \<Rightarrow> str option" where
  "text_mode b = map_option universal_newlines (utf8_decode b)"

text \<open>\<^verbatim>\<open>s.strip()\<close> removes the white space at both ends.\<close>

definition isspace :: "nat \<Rightarrow> bool" where
  "isspace c = (c \<in> {9, 10, 11, 12, 13, 28, 29, 30, 31, 32, 133, 160, 5760, 8232, 8233, 8239, 8287, 12288}
                \<or> (8192 \<le> c \<and> c \<le> 8202))"

definition strip :: "str \<Rightarrow> str" where
  "strip s = rev (dropWhile isspace (rev (dropWhile isspace s)))"

section \<open>Exceptions and the command line\<close>

text \<open>
  Every \<^verbatim>\<open>assert\<close> of the program, by the place where it stands. The message of an
  exception is kept as the values its f-string interpolates.
\<close>

datatype assert_site =
    Getrandom_length
  | Index_exists
  | Key_in_range
  | Chunk_max_size
  | Max_value_len
  | Key_unused
  | Pwd_length
  | Nv_index_response
  | Read_back
  | Delete_exists

datatype error =
    AssertionError assert_site
  | SystemExit "str list" int bytes bytes
  | RuntimeError_command_failed "str list" str
  | RuntimeError_wrote_to_stderr "str list" str
  | AttributeError
  | TypeError
  | OSError
  | UnicodeDecodeError
  | UnicodeEncodeError
  | ValueError
  | YAMLError

text \<open>
  What \<^verbatim>\<open>subprocess.run\<close> meets: the program ran and left an exit status and two
  streams, or it could not be started (\<^verbatim>\<open>OSError\<close>: no such file, no permission).
\<close>

datatype run_outcome = Exited int bytes bytes | Not_started

record completed_process =
  stdout :: bytes
  stderr :: bytes

text \<open>
  The world outside the program: the command line tools with the device behind them, a
  function of the argument vector, the standard input and the state \<open>'s\<close> of the device;
  \<^verbatim>\<open>os.fsencode\<close>, the encoding of an argument for the operating system, which depends on
  the locale (\<open>None\<close> for a \<^verbatim>\<open>UnicodeEncodeError\<close>); \<^verbatim>\<open>yaml.safe_load_all\<close> (\<open>None\<close> for a
  \<^verbatim>\<open>YAMLError\<close>); and Python's \<^verbatim>\<open>repr\<close> of a container.
\<close>

record 's env =
  subprocess_run :: "str list \<Rightarrow> bytes option \<Rightarrow> 's \<Rightarrow> run_outcome \<times> 's"
  os_fsencode :: "str \<Rightarrow> bytes option"
  yaml_safe_load_all :: "str \<Rightarrow> pyval list option"
  container_repr :: "pyval \<Rightarrow> str"

text \<open>
  Before it starts anything, \<^verbatim>\<open>subprocess.run\<close> converts the argument vector, one argument
  after the other: an argument that cannot be encoded raises \<^verbatim>\<open>UnicodeEncodeError\<close>, one
  with a NUL in it \<^verbatim>\<open>ValueError\<close> (embedded null byte). The first argument at fault decides.
\<close>

definition arg_error :: "'s env \<Rightarrow> str \<Rightarrow> error option" where
  "arg_error env a =
     (case os_fsencode env a of
        None \<Rightarrow> Some UnicodeEncodeError
      | Some b \<Rightarrow> if 0 \<in> set b then Some ValueError else None)"

fun argv_error :: "'s env \<Rightarrow> str list \<Rightarrow> error option" where
  "argv_error env [] = None"
| "argv_error env (a # args) =
     (case arg_error env a of Some e \<Rightarrow> Some e | None \<Rightarrow> argv_error env args)"

text \<open>A call returns a value or raises, and leaves the device in a new state.\<close>

type_synonym ('a, 's) io = "'s \<Rightarrow> (error + 'a) \<times> 's"

definition return :: "'a \<Rightarrow> ('a, 's) io" where
  "return x s = (Inr x, s)"

definition raise :: "error \<Rightarrow> ('a, 's) io" where
  "raise e s = (Inl e, s)"

definition lift :: "error + 'a \<Rightarrow> ('a, 's) io" where
  "lift r s = (r, s)"

definition bind :: "('a, 's) io \<Rightarrow> ('a \<Rightarrow> ('b, 's) io) \<Rightarrow> ('b, 's) io" where
  "bind m f s = (case m s of (Inl e, s') \<Rightarrow> (Inl e, s') | (Inr x, s') \<Rightarrow> f x s')"

definition assert :: "bool \<Rightarrow> assert_site \<Rightarrow> (unit, 's) io" where
  "assert b site = (if b then return () else raise (AssertionError site))"

text \<open>
  \<^verbatim>\<open>str(v)\<close>. \<^verbatim>\<open>HexInt\<close> overrides \<^verbatim>\<open>__repr__\<close> only, and \<^verbatim>\<open>str\<close> of an \<^verbatim>\<open>int\<close> subclass goes
  through \<^verbatim>\<open>__repr__\<close>.
\<close>

definition py_str :: "'s env \<Rightarrow> pyval \<Rightarrow> str" where
  "py_str env v =
     (case v of
        PNone \<Rightarrow> lit ''None''
      | PBool b \<Rightarrow> (if b then lit ''True'' else lit ''False'')
      | PInt i \<Rightarrow> int_str i
      | PHexInt i \<Rightarrow> int_hex i
      | PStr s \<Rightarrow> s
      | _ \<Rightarrow> container_repr env v)"

text \<open>\<^verbatim>\<open>d.get(k)\<close>: only a dict has the method.\<close>

fun dict_lookup :: "(pyval \<times> pyval) list \<Rightarrow> pyval \<Rightarrow> pyval" where
  "dict_lookup [] k = PNone"
| "dict_lookup ((k', v) # kvs) k = (if py_eq k' k then v else dict_lookup kvs k)"

fun py_get :: "pyval \<Rightarrow> pyval \<Rightarrow> error + pyval" where
  "py_get (PDict kvs) k = Inr (dict_lookup kvs k)"
| "py_get v k = Inl AttributeError"

text \<open>\<^verbatim>\<open>n in c\<close> for an integer \<open>n\<close>: \<open>None\<close>, a number and a string raise \<^verbatim>\<open>TypeError\<close>.\<close>

fun int_in :: "int \<Rightarrow> pyval \<Rightarrow> error + bool" where
  "int_in n (PList ys) = Inr (list_ex (\<lambda>y. py_eq y (PInt n)) ys)"
| "int_in n (PTuple ys) = Inr (list_ex (\<lambda>y. py_eq y (PInt n)) ys)"
| "int_in n (PSet ys) = Inr (list_ex (\<lambda>y. py_eq y (PInt n)) ys)"
| "int_in n (PDict kvs) = Inr (list_ex (\<lambda>kv. py_eq (fst kv) (PInt n)) kvs)"
| "int_in n v = Inl TypeError"

text \<open>\<^verbatim>\<open>n <= v\<close> for an integer \<open>n\<close>: anything but a number raises \<^verbatim>\<open>TypeError\<close>.\<close>

definition int_le :: "int \<Rightarrow> pyval \<Rightarrow> error + bool" where
  "int_le n v = (case int_value v of Some m \<Rightarrow> Inr (n \<le> m) | None \<Rightarrow> Inl TypeError)"

section \<open>The program\<close>

text \<open>
  \<^verbatim>\<open>run_command\<close> (lines 93-110). A non-zero exit status is a \<^verbatim>\<open>CalledProcessError\<close>,
  which the handler turns into \<^verbatim>\<open>exit(err_msg)\<close>. Any other exception (an argument that
  cannot be passed, a program that cannot be started) has no \<^verbatim>\<open>returncode\<close>, so that
  building the message raises \<^verbatim>\<open>AttributeError\<close> in the handler.
\<close>

definition run_command :: "'s env \<Rightarrow> str list \<Rightarrow> bytes option \<Rightarrow> (completed_process, 's) io" where
  "run_command env command inp s =
     (case argv_error env command of
        Some e \<Rightarrow> (Inl AttributeError, s)
      | None \<Rightarrow>
     (case subprocess_run env command inp s of
        (Exited rc out err, s') \<Rightarrow>
          if rc = 0 then (Inr \<lparr>stdout = out, stderr = err\<rparr>, s')
          else (Inl (SystemExit command rc out err), s')
      | (Not_started, s') \<Rightarrow> (Inl AttributeError, s')))"

text \<open>
  \<^verbatim>\<open>run_command_yaml\<close> (lines 113-135). Only \<^verbatim>\<open>CalledProcessError\<close> is handled: every
  other exception of \<^verbatim>\<open>subprocess.run\<close> goes on to the caller.
\<close>

definition run_command_yaml :: "'s env \<Rightarrow> str list \<Rightarrow> (pyval, 's) io" where
  "run_command_yaml env command s =
     (case argv_error env command of
        Some e \<Rightarrow> (Inl e, s)
      | None \<Rightarrow>
     (case subprocess_run env command None s of
        (Not_started, s') \<Rightarrow> (Inl OSError, s')
      | (Exited rc out err, s') \<Rightarrow>
          (case text_mode out of
             None \<Rightarrow> (Inl UnicodeDecodeError, s')
           | Some out_text \<Rightarrow>
          (case text_mode err of
             None \<Rightarrow> (Inl UnicodeDecodeError, s')
           | Some err_text \<Rightarrow>
               if rc \<noteq> 0 then (Inl (RuntimeError_command_failed command err_text), s')
               else if err_text \<noteq> [] then (Inl (RuntimeError_wrote_to_stderr command err_text), s')
               else if strip out_text = [] then (Inr PNone, s')
               else
                 (case yaml_safe_load_all env (strip out_text) of
                    None \<Rightarrow> (Inl YAMLError, s')
                  | Some docs \<Rightarrow>
                      (Inr (if length docs = 1 then hd (map hexify docs)
                            else PList (map hexify docs)), s'))))))"

text \<open>\<^verbatim>\<open>tpm_sanity_check\<close> (lines 139-142).\<close>

definition tpm_sanity_check :: "'s env \<Rightarrow> (unit, 's) io" where
  "tpm_sanity_check env =
     bind (run_command env [lit ''tpm2_getrandom'', lit ''8''] None) (\<lambda>result.
     assert (length (stdout result) = 8) Getrandom_length)"

text \<open>\<^verbatim>\<open>tpm_get_nv_indices\<close> (lines 145-147).\<close>

definition tpm_get_nv_indices :: "'s env \<Rightarrow> (pyval, 's) io" where
  "tpm_get_nv_indices env = run_command_yaml env [lit ''tpm2_getcap'', lit ''handles-nv-index'']"

text \<open>\<^verbatim>\<open>tpm_get_nv_index_metadata\<close> (lines 150-157).\<close>

definition tpm_get_nv_index_metadata :: "'s env \<Rightarrow> int \<Rightarrow> (pyval, 's) io" where
  "tpm_get_nv_index_metadata env index =
     bind (tpm_get_nv_indices env) (\<lambda>nv_indices_list.
     bind (lift (int_in index nv_indices_list)) (\<lambda>found.
     bind (assert found Index_exists) (\<lambda>_.
     run_command_yaml env [lit ''tpm2_nvreadpublic'', int_str index])))"

text \<open>
  \<^verbatim>\<open>tpm_read_nvm\<close> (lines 160-176). The function returns the text it read, or the
  exception that its own handler caught. \<^verbatim>\<open>SystemExit\<close> is no \<^verbatim>\<open>Exception\<close> and passes
  the handler; \<open>if pwd:\<close> is false for \<open>None\<close> and for the empty string.
\<close>

datatype read_result = Text str | Caught error

definition truthy :: "str option \<Rightarrow> bool" where
  "truthy pwd = (case pwd of None \<Rightarrow> False | Some p \<Rightarrow> p \<noteq> [])"

definition tpm_read_nvm :: "'s env \<Rightarrow> int \<Rightarrow> str option \<Rightarrow> (read_result, 's) io" where
  "tpm_read_nvm env index pwd =
     bind (tpm_get_nv_index_metadata env index) (\<lambda>nv_index.
     bind (lift (py_get nv_index (PInt index))) (\<lambda>entry.
     bind (lift (py_get entry (PStr (lit ''size'')))) (\<lambda>nvm_length.
     (let index_str = int_str index;
          command = [lit ''tpm2_nvread'', lit ''-C'', index_str, lit ''-s'',
                     py_str env nvm_length, index_str]
                    @ (if truthy pwd then [lit ''-P'', the pwd] else [])
      in (\<lambda>s. case run_command env command None s of
            (Inr result, s') \<Rightarrow>
              (case utf8_decode (stdout result) of
                 Some result_str \<Rightarrow> (Inr (Text result_str), s')
               | None \<Rightarrow> (Inr (Caught UnicodeDecodeError), s'))
          | (Inl (SystemExit c rc out err), s') \<Rightarrow> (Inl (SystemExit c rc out err), s')
          | (Inl e, s') \<Rightarrow> (Inr (Caught e), s'))))))"

text \<open>\<^verbatim>\<open>tmp_get_hardware_info\<close> (lines 179-181).\<close>

definition tmp_get_hardware_info :: "'s env \<Rightarrow> (pyval, 's) io" where
  "tmp_get_hardware_info env = run_command_yaml env [lit ''tpm2_getcap'', lit ''properties-fixed'']"

text \<open>\<^verbatim>\<open>tpm_write\<close> (lines 184-238).\<close>

definition nv_attributes :: str where
  "nv_attributes = lit ''authread|authwrite|no_da|orderly''"

definition tpm_write :: "'s env \<Rightarrow> int \<Rightarrow> str \<Rightarrow> str option \<Rightarrow> (unit, 's) io" where
  "tpm_write env key val pwd =
     bind (assert (25165824 \<le> key \<and> key \<le> 29360127) Key_in_range) (\<lambda>_.
     (let value_len = int (length val) in
     bind (tmp_get_hardware_info env) (\<lambda>hw_info.
     bind (lift (py_get hw_info (PStr (lit ''TPM2_PT_NV_BUFFER_MAX'')))) (\<lambda>buffer_max.
     bind (lift (py_get buffer_max (PStr (lit ''raw'')))) (\<lambda>chunk_max_size.
     bind (lift (int_le value_len chunk_max_size)) (\<lambda>fits_chunk.
     bind (assert fits_chunk Chunk_max_size) (\<lambda>_.
     bind (lift (py_get hw_info (PStr (lit ''TPM2_PT_NV_INDEX_MAX'')))) (\<lambda>index_max.
     bind (lift (py_get index_max (PStr (lit ''raw'')))) (\<lambda>max_value_len.
     bind (lift (int_le value_len max_value_len)) (\<lambda>fits_index.
     bind (assert fits_index Max_value_len) (\<lambda>_.
     bind (tpm_get_nv_indices env) (\<lambda>nv_indices_list.
     bind (lift (int_in key nv_indices_list)) (\<lambda>used.
     bind (assert (\<not> used) Key_unused) (\<lambda>_.
     bind (assert (truthy pwd \<longrightarrow> 5 \<le> length (the pwd)) Pwd_length) (\<lambda>_.
     (let key_str = lit ''0x'' @ int_format_x key;
          define_command =
            (if truthy pwd
             then [lit ''tpm2_nvdefine'', lit ''-C'', lit ''o'', lit ''-s'', int_str value_len,
                   lit ''-a'', nv_attributes, lit ''-p'', the pwd, key_str]
             else [lit ''tpm2_nvdefine'', lit ''-C'', lit ''o'', lit ''-s'', int_str value_len,
                   lit ''-a'', nv_attributes, key_str]);
          write_command =
            (if truthy pwd
             then [lit ''tpm2_nvwrite'', lit ''-C'', key_str, lit ''-P'', the pwd,
                   lit ''-i'', lit ''-'', key_str]
             else [lit ''tpm2_nvwrite'', lit ''-C'', key_str, lit ''-i'', lit ''-'', key_str])
      in
     bind (run_command_yaml env define_command) (\<lambda>result.
     bind (lift (py_get result (PStr (lit ''nv-index'')))) (\<lambda>result_response.
     bind (assert (py_eq result_response (PInt key)) Nv_index_response) (\<lambda>_.
     bind (lift (case utf8_encode val of
                   None \<Rightarrow> Inl UnicodeEncodeError | Some b \<Rightarrow> Inr b)) (\<lambda>encoded.
     bind (run_command env write_command (Some encoded)) (\<lambda>_.
     bind (tpm_read_nvm env key pwd) (\<lambda>read_back.
     assert (read_back = Text val) Read_back))))))))))))))))))))))"

text \<open>\<^verbatim>\<open>tpm_delete_index\<close> (lines 241-250).\<close>

definition tpm_delete_index :: "'s env \<Rightarrow> int \<Rightarrow> (unit, 's) io" where
  "tpm_delete_index env key =
     bind (tpm_get_nv_indices env) (\<lambda>nv_indices_list.
     bind (lift (int_in key nv_indices_list)) (\<lambda>found.
     bind (assert found Delete_exists) (\<lambda>_.
     bind (run_command env [lit ''tpm2_nvundefine'', lit ''-C'', lit ''o'',
                            lit ''0x'' @ int_format_x key] None) (\<lambda>_.
     return ()))))"

text \<open>
  An environment that also keeps the list of the commands it was asked to run, each with
  its standard input, in the order of the calls.
\<close>

definition traced :: "'s env \<Rightarrow> ('s \<times> (str list \<times> bytes option) list) env" where
  "traced env =
     \<lparr>subprocess_run = (\<lambda>command inp (s, tr).
        (case subprocess_run env command inp s of
           (outcome, s') \<Rightarrow> (outcome, (s', tr @ [(command, inp)])))),
      os_fsencode = os_fsencode env,
      yaml_safe_load_all = yaml_safe_load_all env,
      container_repr = container_repr env\<rparr>"

section \<open>The parts of \<^verbatim>\<open>tpm_write\<close> and notions for stating its properties\<close>

text \<open>
  The source separates \<^verbatim>\<open>tpm_write\<close> into three parts by comment lines: the four sanity
  checks (lines 186-208), the creation of the index followed by the write command
  (lines 212-231), and the read-back (line 236). \<open>tpm_write_parts\<close> below shows that
  \<open>tpm_write\<close> is these three parts one after the other.
\<close>

definition sanity_checks :: "'s env \<Rightarrow> int \<Rightarrow> str \<Rightarrow> str option \<Rightarrow> (unit, 's) io" where
  "sanity_checks env key val pwd =
     bind (assert (25165824 \<le> key \<and> key \<le> 29360127) Key_in_range) (\<lambda>_.
     bind (tmp_get_hardware_info env) (\<lambda>hw_info.
     bind (lift (py_get hw_info (PStr (lit ''TPM2_PT_NV_BUFFER_MAX'')))) (\<lambda>buffer_max.
     bind (lift (py_get buffer_max (PStr (lit ''raw'')))) (\<lambda>chunk_max_size.
     bind (lift (int_le (int (length val)) chunk_max_size)) (\<lambda>fits_chunk.
     bind (assert fits_chunk Chunk_max_size) (\<lambda>_.
     bind (lift (py_get hw_info (PStr (lit ''TPM2_PT_NV_INDEX_MAX'')))) (\<lambda>index_max.
     bind (lift (py_get index_max (PStr (lit ''raw'')))) (\<lambda>max_value_len.
     bind (lift (int_le (int (length val)) max_value_len)) (\<lambda>fits_index.
     bind (assert fits_index Max_value_len) (\<lambda>_.
     bind (tpm_get_nv_indices env) (\<lambda>nv_indices_list.
     bind (lift (int_in key nv_indices_list)) (\<lambda>used.
     bind (assert (\<not> used) Key_unused) (\<lambda>_.
     assert (truthy pwd \<longrightarrow> 5 \<le> length (the pwd)) Pwd_length)))))))))))))"

definition define_command :: "int \<Rightarrow> str \<Rightarrow> str option \<Rightarrow> str list" where
  "define_command key val pwd =
     (if truthy pwd
      then [lit ''tpm2_nvdefine'', lit ''-C'', lit ''o'', lit ''-s'', int_str (int (length val)),
            lit ''-a'', nv_attributes, lit ''-p'', the pwd, lit ''0x'' @ int_format_x key]
      else [lit ''tpm2_nvdefine'', lit ''-C'', lit ''o'', lit ''-s'', int_str (int (length val)),
            lit ''-a'', nv_attributes, lit ''0x'' @ int_format_x key])"

definition write_command :: "int \<Rightarrow> str option \<Rightarrow> str list" where
  "write_command key pwd =
     (if truthy pwd
      then [lit ''tpm2_nvwrite'', lit ''-C'', lit ''0x'' @ int_format_x key, lit ''-P'', the pwd,
            lit ''-i'', lit ''-'', lit ''0x'' @ int_format_x key]
      else [lit ''tpm2_nvwrite'', lit ''-C'', lit ''0x'' @ int_format_x key,
            lit ''-i'', lit ''-'', lit ''0x'' @ int_format_x key])"

definition define_and_write ::
  "'s env \<Rightarrow> int \<Rightarrow> str \<Rightarrow> str option \<Rightarrow> (completed_process, 's) io" where
  "define_and_write env key val pwd =
     bind (run_command_yaml env (define_command key val pwd)) (\<lambda>result.
     bind (lift (py_get result (PStr (lit ''nv-index'')))) (\<lambda>result_response.
     bind (assert (py_eq result_response (PInt key)) Nv_index_response) (\<lambda>_.
     bind (lift (case utf8_encode val of
                   None \<Rightarrow> Inl UnicodeEncodeError | Some b \<Rightarrow> Inr b)) (\<lambda>encoded.
     run_command env (write_command key pwd) (Some encoded)))))"

definition verify_write :: "'s env \<Rightarrow> int \<Rightarrow> str \<Rightarrow> str option \<Rightarrow> (unit, 's) io" where
  "verify_write env key val pwd =
     bind (tpm_read_nvm env key pwd) (\<lambda>read_back. assert (read_back = Text val) Read_back)"

text \<open>The command that \<^verbatim>\<open>tpm_read_nvm\<close> builds (lines 165-168) for a size \<open>n\<close> from the metadata.\<close>

definition read_command :: "'s env \<Rightarrow> int \<Rightarrow> pyval \<Rightarrow> str option \<Rightarrow> str list" where
  "read_command env index n pwd =
     [lit ''tpm2_nvread'', lit ''-C'', int_str index, lit ''-s'', py_str env n, int_str index]
     @ (if truthy pwd then [lit ''-P'', the pwd] else [])"

text \<open>The limit that a capability report gives under a name, if it gives a number.\<close>

definition reported_limit :: "pyval \<Rightarrow> string \<Rightarrow> int option" where
  "reported_limit hw_info name =
     (case py_get hw_info (PStr (lit name)) of
        Inl e \<Rightarrow> None
      | Inr d \<Rightarrow> (case py_get d (PStr (lit ''raw'')) of Inl e \<Rightarrow> None | Inr v \<Rightarrow> int_value v))"

text \<open>The commands that only ask the device, and a device that they leave as it is.\<close>

definition is_query :: "str list \<Rightarrow> bool" where
  "is_query command =
     (command \<noteq> [] \<and>
      hd command \<in> {lit ''tpm2_getcap'', lit ''tpm2_nvreadpublic'', lit ''tpm2_nvread''})"

definition queries_keep_state :: "'s env \<Rightarrow> bool" where
  "queries_keep_state env =
     (\<forall>command inp s. is_query command \<longrightarrow> snd (subprocess_run env command inp s) = s)"

text \<open>The assertions that make up the validation of \<^verbatim>\<open>tpm_write\<close>.\<close>

definition validation_site :: "assert_site \<Rightarrow> bool" where
  "validation_site site =
     (site = Key_in_range \<or> site = Chunk_max_size \<or> site = Max_value_len
      \<or> site = Key_unused \<or> site = Pwd_length)"

text \<open>The commands that change the device: define, write, undefine.\<close>

definition mutating :: "str list \<Rightarrow> bool" where
  "mutating command =
     (command \<noteq> [] \<and>
      hd command \<in> {lit ''tpm2_nvdefine'', lit ''tpm2_nvwrite'', lit ''tpm2_nvundefine''})"

text \<open>\<^verbatim>\<open>type(e).__name__\<close>: the class of an exception.\<close>

fun class_name :: "error \<Rightarrow> string" where
  "class_name (AssertionError site) = ''AssertionError''"
| "class_name (SystemExit c rc out err) = ''SystemExit''"
| "class_name (RuntimeError_command_failed c err) = ''RuntimeError''"
| "class_name (RuntimeError_wrote_to_stderr c err) = ''RuntimeError''"
| "class_name AttributeError = ''AttributeError''"
| "class_name TypeError = ''TypeError''"
| "class_name OSError = ''OSError''"
| "class_name UnicodeDecodeError = ''UnicodeDecodeError''"
| "class_name UnicodeEncodeError = ''UnicodeEncodeError''"
| "class_name ValueError = ''ValueError''"
| "class_name YAMLError = ''YAMLError''"

text \<open>
  Two properties of a computation, for the proofs: every exception it raises satisfies
  \<open>Q\<close>; and, run in a traced environment, it adds to the trace only commands that
  satisfy \<open>P\<close>.
\<close>

definition raises_only :: "(error \<Rightarrow> bool) \<Rightarrow> ('a, 's) io \<Rightarrow> bool" where
  "raises_only Q m = (\<forall>s e s'. m s = (Inl e, s') \<longrightarrow> Q e)"

definition issues_only ::
  "(str list \<times> bytes option \<Rightarrow> bool) \<Rightarrow> ('a, 's \<times> (str list \<times> bytes option) list) io \<Rightarrow> bool" where
  "issues_only P m =
     (\<forall>s tr r s' tr'. m (s, tr) = (r, (s', tr')) \<longrightarrow>
        (\<exists>new. tr' = tr @ new \<and> (\<forall>c\<in>set new. P c)))"

text \<open>An exception that, if it is a failed assertion, is one of the assertions in \<open>A\<close>.\<close>

definition asserts_in :: "assert_site set \<Rightarrow> error \<Rightarrow> bool" where
  "asserts_in A e = (\<forall>site. e = AssertionError site \<longrightarrow> site \<in> A)"

text \<open>
  Two more notions for the proofs: a computation that leaves the state as it is, and a
  computation in a traced environment that does what another one does in the plain one.
\<close>

definition keeps_state :: "('a, 's) io \<Rightarrow> bool" where
  "keeps_state m = (\<forall>s. snd (m s) = s)"

definition simulates ::
  "('a, 's \<times> (str list \<times> bytes option) list) io \<Rightarrow> ('a, 's) io \<Rightarrow> bool" where
  "simulates mt m = (\<forall>s tr. fst (mt (s, tr)) = fst (m s) \<and> fst (snd (mt (s, tr))) = snd (m s))"

section \<open>A device to run the program on\<close>

text \<open>
  A small stand-in for the command line tools and the TPM behind them, for running the
  program on concrete inputs: the NV indices with their size, their password (empty when
  there is none) and their content once written. It reports a transfer limit of 16 bytes
  and a value limit of 32 bytes.
\<close>

record slot =
  slot_address :: nat
  slot_size :: nat
  slot_auth :: str
  slot_data :: "bytes option"

type_synonym tpm = "slot list"

definition digit_value :: "nat \<Rightarrow> nat option" where
  "digit_value c =
     (if 48 \<le> c \<and> c \<le> 57 then Some (c - 48)
      else if 97 \<le> c \<and> c \<le> 102 then Some (c - 87)
      else None)"

fun parse_digits :: "nat \<Rightarrow> nat \<Rightarrow> str \<Rightarrow> nat option" where
  "parse_digits b acc [] = Some acc"
| "parse_digits b acc (c # cs) =
     (case digit_value c of
        None \<Rightarrow> None
      | Some d \<Rightarrow> if d < b then parse_digits b (acc * b + d) cs else None)"

definition parse_number :: "str \<Rightarrow> nat option" where
  "parse_number s =
     (if s = [] \<or> s = lit ''0x'' then None
      else if take 2 s = lit ''0x'' then parse_digits 16 0 (drop 2 s)
      else parse_digits 10 0 s)"

definition lookup_slot :: "tpm \<Rightarrow> str \<Rightarrow> slot option" where
  "lookup_slot t a =
     (case parse_number a of
        None \<Rightarrow> None
      | Some n \<Rightarrow> find (\<lambda>sl. slot_address sl = n) t)"

definition handles_text :: "tpm \<Rightarrow> bytes" where
  "handles_text t = concat (map (\<lambda>sl. lit ''- 0x'' @ digits 16 (slot_address sl) @ [10]) t)"

definition properties_text :: bytes where
  "properties_text =
     lit ''TPM2_PT_NV_BUFFER_MAX:'' @ [10] @ lit ''  raw: 0x10'' @ [10]
     @ lit ''TPM2_PT_NV_INDEX_MAX:'' @ [10] @ lit ''  raw: 0x20'' @ [10]"

definition public_text :: "slot \<Rightarrow> bytes" where
  "public_text sl =
     lit ''0x'' @ digits 16 (slot_address sl) @ lit '':'' @ [10]
     @ lit ''  size: '' @ digits 10 (slot_size sl) @ [10]"

definition failed :: "string \<Rightarrow> tpm \<Rightarrow> run_outcome \<times> tpm" where
  "failed msg t = (Exited 1 [] (lit msg), t)"

definition nvread :: "tpm \<Rightarrow> str \<Rightarrow> str \<Rightarrow> str \<Rightarrow> run_outcome \<times> tpm" where
  "nvread t a n pw =
     (case lookup_slot t a of
        None \<Rightarrow> failed ''ERROR: the handle does not exist'' t
      | Some sl \<Rightarrow>
          if slot_auth sl \<noteq> pw then failed ''ERROR: authorization failure without DA implications'' t
          else
            (case (slot_data sl, parse_number n) of
               (Some bs, Some k) \<Rightarrow>
                 if k \<le> slot_size sl then (Exited 0 (take k bs) [], t)
                 else failed ''ERROR: size out of range'' t
             | _ \<Rightarrow> failed ''ERROR: the index is not written'' t))"

definition nvdefine :: "tpm \<Rightarrow> str \<Rightarrow> str \<Rightarrow> str \<Rightarrow> run_outcome \<times> tpm" where
  "nvdefine t a n pw =
     (case (parse_number a, parse_number n) of
        (Some addr, Some k) \<Rightarrow>
          if list_ex (\<lambda>sl. slot_address sl = addr) t then failed ''ERROR: the index is defined'' t
          else (Exited 0 (lit ''nv-index: 0x'' @ digits 16 addr @ [10]) [],
                t @ [\<lparr>slot_address = addr, slot_size = k, slot_auth = pw, slot_data = None\<rparr>])
      | _ \<Rightarrow> failed ''ERROR: bad argument'' t)"

definition nvwrite :: "tpm \<Rightarrow> str \<Rightarrow> str \<Rightarrow> bytes option \<Rightarrow> run_outcome \<times> tpm" where
  "nvwrite t a pw inp =
     (case (lookup_slot t a, inp) of
        (Some sl, Some bs) \<Rightarrow>
          if slot_auth sl \<noteq> pw then failed ''ERROR: authorization failure without DA implications'' t
          else if slot_size sl < length bs then failed ''ERROR: size out of range'' t
          else (Exited 0 [] [],
                map (\<lambda>x. if slot_address x = slot_address sl
                          then x\<lparr>slot_data := Some (bs @ replicate (slot_size sl - length bs) 255)\<rparr>
                          else x) t)
      | _ \<Rightarrow> failed ''ERROR: the handle does not exist'' t)"

definition nvundefine :: "tpm \<Rightarrow> str \<Rightarrow> run_outcome \<times> tpm" where
  "nvundefine t a =
     (case lookup_slot t a of
        None \<Rightarrow> failed ''ERROR: the handle does not exist'' t
      | Some sl \<Rightarrow> (Exited 0 [] [], filter (\<lambda>x. slot_address x \<noteq> slot_address sl) t))"

definition sample_run :: "str list \<Rightarrow> bytes option \<Rightarrow> tpm \<Rightarrow> run_outcome \<times> tpm" where
  "sample_run command inp t =
     (if command = [lit ''tpm2_getcap'', lit ''handles-nv-index'']
        then (Exited 0 (handles_text t) [], t)
      else if command = [lit ''tpm2_getcap'', lit ''properties-fixed'']
        then (Exited 0 properties_text [], t)
      else if command = [] then (Not_started, t)
      else if hd command = lit ''tpm2_nvreadpublic'' \<and> length command = 2 then
        (case lookup_slot t (command ! 1) of
           None \<Rightarrow> failed ''ERROR: the handle does not exist'' t
         | Some sl \<Rightarrow> (Exited 0 (public_text sl) [], t))
      else if hd command = lit ''tpm2_nvread'' \<and> length command = 6
        then nvread t (command ! 5) (command ! 4) []
      else if hd command = lit ''tpm2_nvread'' \<and> length command = 8
        then nvread t (command ! 5) (command ! 4) (command ! 7)
      else if hd command = lit ''tpm2_nvdefine'' \<and> length command = 8
        then nvdefine t (command ! 7) (command ! 4) []
      else if hd command = lit ''tpm2_nvdefine'' \<and> length command = 10
        then nvdefine t (command ! 9) (command ! 4) (command ! 8)
      else if hd command = lit ''tpm2_nvwrite'' \<and> length command = 6
        then nvwrite t (command ! 5) [] inp
      else if hd command = lit ''tpm2_nvwrite'' \<and> length command = 8
        then nvwrite t (command ! 7) (command ! 4) inp
      else if hd command = lit ''tpm2_nvundefine'' \<and> length command = 4
        then nvundefine t (command ! 3)
      else (Not_started, t))"

text \<open>The YAML documents that these tools print, read back.\<close>

fun split_lines :: "str \<Rightarrow> str list" where
  "split_lines [] = [[]]"
| "split_lines (c # cs) =
     (case split_lines cs of
        l # ls \<Rightarrow> if c = 10 then [] # l # ls else (c # l) # ls
      | [] \<Rightarrow> [[c]])"

fun those_numbers :: "str list \<Rightarrow> pyval list option" where
  "those_numbers [] = Some []"
| "those_numbers (l # ls) =
     (if take 2 l = lit ''- '' then
        (case parse_number (drop 2 l) of
           None \<Rightarrow> None
         | Some n \<Rightarrow> cons_option (PInt (int n)) (those_numbers ls))
      else None)"

definition properties_doc :: pyval where
  "properties_doc =
     PDict [(PStr (lit ''TPM2_PT_NV_BUFFER_MAX''), PDict [(PStr (lit ''raw''), PInt 16)]),
            (PStr (lit ''TPM2_PT_NV_INDEX_MAX''), PDict [(PStr (lit ''raw''), PInt 32)])]"

definition sample_yaml :: "str \<Rightarrow> pyval list option" where
  "sample_yaml s =
     (if s = strip properties_text then Some [properties_doc]
      else
        (case split_lines s of
           [l] \<Rightarrow>
             if take 10 l = lit ''nv-index: '' then
               (case parse_number (drop 10 l) of
                  None \<Rightarrow> None
                | Some n \<Rightarrow> Some [PDict [(PStr (lit ''nv-index''), PInt (int n))]])
             else map_option (\<lambda>xs. [PList xs]) (those_numbers [l])
         | [l1, l2] \<Rightarrow>
             if take 8 l2 = lit ''  size: '' \<and> l1 \<noteq> [] \<and> last l1 = 58 then
               (case (parse_number (butlast l1), parse_number (drop 8 l2)) of
                  (Some a, Some n) \<Rightarrow>
                    Some [PDict [(PInt (int a), PDict [(PStr (lit ''size''), PInt (int n))])]]
                | _ \<Rightarrow> None)
             else map_option (\<lambda>xs. [PList xs]) (those_numbers [l1, l2])
         | ls \<Rightarrow> map_option (\<lambda>xs. [PList xs]) (those_numbers ls)))"

text \<open>
  \<^verbatim>\<open>os.fsencode\<close> in a UTF-8 locale: UTF-8 with the \<^verbatim>\<open>surrogateescape\<close> handler, which
  turns U+DC80..U+DCFF into the bytes 128..255.
\<close>

definition fsencode_char :: "nat \<Rightarrow> bytes option" where
  "fsencode_char c = (if 56448 \<le> c \<and> c < 56576 then Some [c - 56320] else utf8_encode_char c)"

fun fsencode_utf8 :: "str \<Rightarrow> bytes option" where
  "fsencode_utf8 [] = Some []"
| "fsencode_utf8 (c # cs) =
     (case fsencode_char c of
        None \<Rightarrow> None
      | Some bs \<Rightarrow> (case fsencode_utf8 cs of None \<Rightarrow> None | Some r \<Rightarrow> Some (bs @ r)))"

definition sample_env :: "tpm env" where
  "sample_env =
     \<lparr>subprocess_run = sample_run,
      os_fsencode = fsencode_utf8,
      yaml_safe_load_all = sample_yaml,
      container_repr = (\<lambda>v. lit ''...'')\<rparr>"

definition hello_world :: str where
  "hello_world = lit ''hello world''"

definition tpm0 :: tpm where
  "tpm0 = [\<lparr>slot_address = 25165824, slot_size = 11, slot_auth = [],
            slot_data = Some hello_world\<rparr>]"

text \<open>
  The device after \<^verbatim>\<open>tpm_write(key=0x01800013, value="abcyo")\<close>, and after
  \<^verbatim>\<open>tpm_write(key=0x01800013, value="abcyoo", pwd="abcde")\<close>, the two calls in \<^verbatim>\<open>main\<close>.
\<close>

definition tpm_open :: tpm where
  "tpm_open = tpm0 @ [\<lparr>slot_address = 25165843, slot_size = 5, slot_auth = [],
                       slot_data = Some (lit ''abcyo'')\<rparr>]"

definition tpm_protected :: tpm where
  "tpm_protected = tpm0 @ [\<lparr>slot_address = 25165843, slot_size = 6, slot_auth = lit ''abcde'',
                       slot_data = Some (lit ''abcyoo'')\<rparr>]"

text \<open>
  A second stand-in, whose value limit (4) is below its transfer limit (8): every command
  succeeds and every YAML document read is the same capability report.
\<close>

definition narrow_doc :: pyval where
  "narrow_doc =
     PDict [(PStr (lit ''TPM2_PT_NV_BUFFER_MAX''), PDict [(PStr (lit ''raw''), PInt 8)]),
            (PStr (lit ''TPM2_PT_NV_INDEX_MAX''), PDict [(PStr (lit ''raw''), PInt 4)])]"

definition narrow_env :: "unit env" where
  "narrow_env =
     \<lparr>subprocess_run = (\<lambda>command inp s. (Exited 0 (lit ''-'') [], s)),
      os_fsencode = fsencode_utf8,
      yaml_safe_load_all = (\<lambda>text. Some [narrow_doc]),
      container_repr = (\<lambda>v. lit ''...'')\<rparr>"

section \<open>Properties of hexify\<close>

lemma list_all2_canon:
  assumes "\<And>x y. x \<in> set xs \<Longrightarrow> hashable y \<Longrightarrow> P x y = (f x = f y)"
    and "\<forall>y\<in>set ys. hashable y"
  shows "list_all2 P xs ys = (map f xs = map f ys)"
  using assms
proof (induction xs arbitrary: ys)
  case Nil
  then show ?case by auto
next
  case (Cons x xs)
  show ?case
  proof (cases ys)
    case Nil
    then show ?thesis by simp
  next
    case (Cons y ys')
    with Cons.prems Cons.IH [of ys'] show ?thesis by auto
  qed
qed

lemma py_eq_canon_atom:
  "\<forall>xs. x \<noteq> PTuple xs \<Longrightarrow> hashable x \<Longrightarrow> hashable y \<Longrightarrow> py_eq x y = (canon x = canon y)"
  by (cases x; cases y; auto)

lemma py_eq_canon:
  "hashable x \<Longrightarrow> hashable y \<Longrightarrow> py_eq x y = (canon x = canon y)"
proof (induction x arbitrary: y rule: hashable.induct)
  case (4 xs)
  show ?case
  proof (cases y)
    case (PTuple ys)
    have "list_all2 py_eq xs ys = (map canon xs = map canon ys)"
      using 4 PTuple by (intro list_all2_canon) auto
    then show ?thesis using PTuple by simp
  qed simp_all
qed (rule py_eq_canon_atom; simp)+

lemma hexify_hashable:
  "hashable x \<Longrightarrow> hashable (hexify x) \<and> canon (hexify x) = canon x"
  by (induction x rule: hashable.induct) simp_all

lemma py_eq_hexify:
  "hashable x \<Longrightarrow> hashable y \<Longrightarrow> py_eq (hexify x) (hexify y) = py_eq x y"
  by (simp add: py_eq_canon hexify_hashable)

lemma set_add_fresh: "\<forall>y\<in>set ys. \<not> py_eq y x \<Longrightarrow> set_add ys x = ys @ [x]"
  by (induction ys) auto

lemma py_distinct_append:
  "py_distinct (xs @ ys) =
     (py_distinct xs \<and> py_distinct ys \<and> (\<forall>x\<in>set xs. \<forall>y\<in>set ys. \<not> py_eq x y))"
  by (induction xs) auto

lemma foldl_set_add: "py_distinct (acc @ zs) \<Longrightarrow> foldl set_add acc zs = acc @ zs"
proof (induction zs arbitrary: acc)
  case Nil
  then show ?case by simp
next
  case (Cons z zs)
  from Cons.prems have fresh: "\<forall>y\<in>set acc. \<not> py_eq y z"
    by (simp add: py_distinct_append)
  from Cons.prems have "py_distinct ((acc @ [z]) @ zs)" by simp
  from Cons.IH [OF this] fresh show ?case by (simp add: set_add_fresh)
qed

lemma dict_setitem_fresh:
  "\<forall>k'\<in>set (map fst kvs). \<not> py_eq k' k \<Longrightarrow> dict_setitem kvs k v = kvs @ [(k, v)]"
  by (induction kvs) auto

lemma foldl_dict_setitem:
  "py_distinct (map fst (acc @ zs)) \<Longrightarrow>
   foldl (\<lambda>d kv. dict_setitem d (fst kv) (snd kv)) acc zs = acc @ zs"
proof (induction zs arbitrary: acc)
  case Nil
  then show ?case by simp
next
  case (Cons z zs)
  from Cons.prems have fresh: "\<forall>k'\<in>set (map fst acc). \<not> py_eq k' (fst z)"
    by (simp add: py_distinct_append)
  from Cons.prems have "py_distinct (map fst ((acc @ [z]) @ zs))" by simp
  from Cons.IH [OF this] fresh show ?case by (simp add: dict_setitem_fresh)
qed

lemma py_distinct_map_hexify:
  "\<forall>x\<in>set xs. hashable x \<Longrightarrow> py_distinct (map hexify xs) = py_distinct xs"
  by (induction xs) (auto simp: py_eq_hexify)

lemma list_all2_map_left: "(\<And>x. x \<in> set xs \<Longrightarrow> P (f x) x) \<Longrightarrow> list_all2 P (map f xs) xs"
  by (induction xs) auto

lemma hexify_py_eq: "well_formed x \<Longrightarrow> py_eq (hexify x) x"
proof (induction x rule: hexify.induct)
  case (4 kvs)
  let ?h = "\<lambda>kv. (hexify (fst kv), hexify (snd kv))"
  from 4(3) have hk: "\<forall>k\<in>set (map fst kvs). hashable k" by auto
  have "map fst (map ?h kvs) = map hexify (map fst kvs)" by simp
  with 4(3) hk have "py_distinct (map fst ([] @ map ?h kvs))"
    by (simp only: append_Nil py_distinct_map_hexify well_formed.simps)
  then have eq: "foldl (\<lambda>d kv. dict_setitem d (fst kv) (snd kv)) [] (map ?h kvs) = map ?h kvs"
    using foldl_dict_setitem [of "[]" "map ?h kvs"] by simp
  have "\<forall>kv\<in>set (map ?h kvs). \<exists>kw\<in>set kvs. py_eq (fst kv) (fst kw) \<and> py_eq (snd kv) (snd kw)"
  proof
    fix kv assume "kv \<in> set (map ?h kvs)"
    then obtain kw where kw: "kw \<in> set kvs" and kv: "kv = ?h kw" by auto
    from kw 4(3) have "well_formed (fst kw)" "well_formed (snd kw)" by auto
    with kw 4(1,2) have "py_eq (hexify (fst kw)) (fst kw)" "py_eq (hexify (snd kw)) (snd kw)"
      by blast+
    with kw kv show "\<exists>kw\<in>set kvs. py_eq (fst kv) (fst kw) \<and> py_eq (snd kv) (snd kw)"
      by auto
  qed
  with eq show ?case by simp
next
  case (5 xs)
  then show ?case by (simp add: list_all2_map_left)
next
  case (6 xs)
  then show ?case by (simp add: list_all2_map_left)
next
  case (7 xs)
  from 7(2) have "py_distinct ([] @ map hexify xs)"
    by (simp add: py_distinct_map_hexify)
  then have eq: "foldl set_add [] (map hexify xs) = map hexify xs"
    using foldl_set_add [of "[]" "map hexify xs"] by simp
  have "\<forall>x\<in>set (map hexify xs). \<exists>y\<in>set xs. py_eq x y"
    using 7 by auto
  with eq show ?case by simp
qed simp_all

text \<open>
  C10. For every value built from booleans, integers, strings, dicts, lists, tuples and sets,
  \<^verbatim>\<open>hexify(x) == x\<close>: an integer becomes a \<open>HexInt\<close> of the same value, a boolean stays the
  boolean it was, and a container keeps its shape, so a comparison of a hexified device
  response with a plain integer (the nv-index echo, the membership test on the list of
  indices) gives what it gives on the raw value.
\<close>

theorem hexify_equal:
  "well_formed x \<Longrightarrow>
     py_eq (hexify x) x
     \<and> hexify (PBool b) = PBool b
     \<and> hexify (PInt i) = PHexInt i \<and> int_value (PHexInt i) = Some i
     \<and> py_eq (hexify x) (PInt k) = py_eq x (PInt k)"
proof -
  assume wf: "well_formed x"
  have "py_eq (hexify x) (PInt k) = py_eq x (PInt k)"
    by (cases x) simp_all
  with wf show ?thesis by (simp add: hexify_py_eq)
qed

theorem hexify_equal_witness:
  "well_formed (PDict [(PStr (lit ''nv-index''), PList [PInt 25165824, PBool True]),
                       (PTuple [PInt 1, PStr (lit ''a'')], PSet [PInt 2, PInt 3])])
   \<and> py_eq (hexify (PDict [(PStr (lit ''nv-index''), PList [PInt 25165824, PBool True]),
                       (PTuple [PInt 1, PStr (lit ''a'')], PSet [PInt 2, PInt 3])]))
        (PDict [(PStr (lit ''nv-index''), PList [PInt 25165824, PBool True]),
                (PTuple [PInt 1, PStr (lit ''a'')], PSet [PInt 2, PInt 3])])"
proof -
  have wf: "well_formed (PDict [(PStr (lit ''nv-index''), PList [PInt 25165824, PBool True]),
                       (PTuple [PInt 1, PStr (lit ''a'')], PSet [PInt 2, PInt 3])])"
    by (simp add: lit_def)
  from hexify_equal [OF wf] wf show ?thesis by blast
qed

section \<open>Running and sequencing\<close>


lemma bind_return: "bind (return x) f = f x"
  by (rule ext) (simp add: bind_def return_def)

lemma bind_raise: "bind (raise e) f s = (Inl e, s)"
  by (simp add: bind_def raise_def)

lemma bind_lift_Inr: "bind (lift (Inr x)) f = f x"
  by (rule ext) (simp add: bind_def lift_def)

lemma bind_lift_Inl: "bind (lift (Inl e)) f s = (Inl e, s)"
  by (simp add: bind_def lift_def)

lemma bind_assert_True: "b \<Longrightarrow> bind (assert b site) f = f ()"
  by (rule ext) (simp add: bind_def assert_def return_def)

lemma bind_assert_False: "\<not> b \<Longrightarrow> bind (assert b site) f s = (Inl (AssertionError site), s)"
  by (simp add: bind_def assert_def raise_def)

lemma bind_assoc: "bind (bind m f) g = bind m (\<lambda>x. bind (f x) g)"
  by (rule ext) (simp add: bind_def split: prod.splits sum.splits)

lemma bind_Inr_iff:
  "bind m f s = (Inr y, s') \<longleftrightarrow> (\<exists>x s1. m s = (Inr x, s1) \<and> f x s1 = (Inr y, s'))"
  by (auto simp: bind_def split: prod.splits sum.splits)

lemma bind_Inl_iff:
  "bind m f s = (Inl e, s') \<longleftrightarrow>
     (m s = (Inl e, s') \<or> (\<exists>x s1. m s = (Inr x, s1) \<and> f x s1 = (Inl e, s')))"
  by (auto simp: bind_def split: prod.splits sum.splits)

lemma tpm_write_parts:
  "tpm_write env key val pwd =
     bind (sanity_checks env key val pwd) (\<lambda>_.
     bind (define_and_write env key val pwd) (\<lambda>_. verify_write env key val pwd))"
  by (simp add: tpm_write_def sanity_checks_def define_and_write_def verify_write_def
      define_command_def write_command_def Let_def bind_assoc)


lemma raises_only_bind:
  "raises_only Q m \<Longrightarrow> (\<And>x. raises_only Q (f x)) \<Longrightarrow> raises_only Q (bind m f)"
  unfolding raises_only_def bind_Inl_iff by blast

lemma raises_only_lift: "(\<And>e. r = Inl e \<Longrightarrow> Q e) \<Longrightarrow> raises_only Q (lift r)"
  by (simp add: raises_only_def lift_def)

lemma raises_only_assert: "Q (AssertionError site) \<Longrightarrow> raises_only Q (assert b site)"
  by (simp add: raises_only_def assert_def return_def raise_def)

lemma raises_only_return: "raises_only Q (return x)"
  by (simp add: raises_only_def return_def)

lemma raises_only_mono: "raises_only Q m \<Longrightarrow> (\<And>e. Q e \<Longrightarrow> Q' e) \<Longrightarrow> raises_only Q' m"
  unfolding raises_only_def by blast

lemma arg_errorD: "arg_error env a = Some e \<Longrightarrow> e = UnicodeEncodeError \<or> e = ValueError"
  by (auto simp: arg_error_def split: option.splits if_splits)

lemma argv_errorD: "argv_error env command = Some e \<Longrightarrow> e = UnicodeEncodeError \<or> e = ValueError"
  by (induction command) (auto split: option.splits dest: arg_errorD)

lemma run_command_raises: "raises_only (asserts_in A) (run_command env command inp)"
  by (auto simp: raises_only_def run_command_def asserts_in_def
      split: prod.splits run_outcome.splits option.splits if_splits)

lemma run_command_yaml_raises: "raises_only (asserts_in A) (run_command_yaml env command)"
  by (auto simp: raises_only_def run_command_yaml_def asserts_in_def
      split: prod.splits run_outcome.splits option.splits if_splits dest: argv_errorD)

lemma py_get_raises: "raises_only (asserts_in A) (lift (py_get v k))"
  by (cases v) (auto simp: asserts_in_def raises_only_def lift_def)

lemma int_in_raises: "raises_only (asserts_in A) (lift (int_in n v))"
  by (cases v) (auto simp: asserts_in_def raises_only_def lift_def)

lemma int_le_raises: "raises_only (asserts_in A) (lift (int_le n v))"
  by (auto simp: int_le_def asserts_in_def raises_only_def lift_def split: option.splits)

lemma asserts_in_site: "site \<in> A \<Longrightarrow> asserts_in A (AssertionError site)"
  by (simp add: asserts_in_def)

lemma metadata_raises:
  "Index_exists \<in> A \<Longrightarrow> raises_only (asserts_in A) (tpm_get_nv_index_metadata env index)"
  unfolding tpm_get_nv_index_metadata_def tpm_get_nv_indices_def
  by (intro raises_only_bind raises_only_assert run_command_yaml_raises
      int_in_raises asserts_in_site)

lemma read_raises:
  "Index_exists \<in> A \<Longrightarrow> raises_only (asserts_in A) (tpm_read_nvm env index pwd)"
  unfolding tpm_read_nvm_def Let_def
  apply (intro raises_only_bind metadata_raises py_get_raises)
   apply assumption
  apply (auto simp: raises_only_def asserts_in_def run_command_def
      split: prod.splits sum.splits error.splits option.splits run_outcome.splits if_splits)
  done

lemma verify_raises:
  "Index_exists \<in> A \<Longrightarrow> Read_back \<in> A \<Longrightarrow> raises_only (asserts_in A) (verify_write env key val pwd)"
  unfolding verify_write_def
  by (intro raises_only_bind raises_only_assert read_raises asserts_in_site)

lemma encode_raises:
  "raises_only (asserts_in A)
     (lift (case utf8_encode val of None \<Rightarrow> Inl UnicodeEncodeError | Some b \<Rightarrow> Inr b))"
  by (auto simp: raises_only_def lift_def asserts_in_def split: option.splits)

lemma define_and_write_raises:
  "Nv_index_response \<in> A \<Longrightarrow> raises_only (asserts_in A) (define_and_write env key val pwd)"
  unfolding define_and_write_def
  by (intro raises_only_bind raises_only_assert run_command_yaml_raises
      run_command_raises py_get_raises encode_raises asserts_in_site)

lemma sanity_checks_raises:
  assumes A: "{Chunk_max_size, Max_value_len, Key_unused, Pwd_length} \<subseteq> A"
    and range: "\<not> (25165824 \<le> key \<and> key \<le> 29360127) \<Longrightarrow> Key_in_range \<in> A"
  shows "raises_only (asserts_in A) (sanity_checks env key val pwd)"
proof (cases "25165824 \<le> key \<and> key \<le> 29360127")
  case True
  from A show ?thesis
    unfolding sanity_checks_def tmp_get_hardware_info_def tpm_get_nv_indices_def
      bind_assert_True [OF True]
    by (intro raises_only_bind raises_only_assert run_command_yaml_raises
        py_get_raises int_in_raises int_le_raises asserts_in_site) auto
next
  case False
  from range [OF False] show ?thesis
    by (simp add: raises_only_def sanity_checks_def bind_assert_False [OF False] asserts_in_def)
qed

lemma tpm_write_raises:
  "{Chunk_max_size, Max_value_len, Key_unused, Pwd_length, Nv_index_response, Index_exists,
    Read_back} \<subseteq> A \<Longrightarrow>
   (\<not> (25165824 \<le> key \<and> key \<le> 29360127) \<Longrightarrow> Key_in_range \<in> A) \<Longrightarrow>
   raises_only (asserts_in A) (tpm_write env key val pwd)"
  unfolding tpm_write_parts
  by (intro raises_only_bind sanity_checks_raises define_and_write_raises verify_raises) auto


lemma reported_limitD:
  "reported_limit hw name = Some m \<Longrightarrow>
   \<exists>d v. py_get hw (PStr (lit name)) = Inr d \<and> py_get d (PStr (lit ''raw'')) = Inr v
         \<and> int_value v = Some m"
  by (auto simp: reported_limit_def split: sum.splits)

lemma sanity_checks_size:
  assumes range: "25165824 \<le> key \<and> key \<le> 29360127"
    and hw: "tmp_get_hardware_info env s = (Inr hw, s1)"
    and m: "reported_limit hw ''TPM2_PT_NV_BUFFER_MAX'' = Some m"
    and mv: "reported_limit hw ''TPM2_PT_NV_INDEX_MAX'' = Some mv"
  shows "sanity_checks env key val pwd s =
     (if \<not> int (length val) \<le> m then (Inl (AssertionError Chunk_max_size), s1)
      else if \<not> int (length val) \<le> mv then (Inl (AssertionError Max_value_len), s1)
      else
        bind (tpm_get_nv_indices env) (\<lambda>nv_indices_list.
        bind (lift (int_in key nv_indices_list)) (\<lambda>used.
        bind (assert (\<not> used) Key_unused) (\<lambda>_.
        assert (truthy pwd \<longrightarrow> 5 \<le> length (the pwd)) Pwd_length))) s1)"
proof -
  from reported_limitD [OF m] obtain d v where
    d: "py_get hw (PStr (lit ''TPM2_PT_NV_BUFFER_MAX'')) = Inr d"
    and v: "py_get d (PStr (lit ''raw'')) = Inr v" and vm: "int_value v = Some m" by blast
  from reported_limitD [OF mv] obtain d' v' where
    d': "py_get hw (PStr (lit ''TPM2_PT_NV_INDEX_MAX'')) = Inr d'"
    and v': "py_get d' (PStr (lit ''raw'')) = Inr v'" and vm': "int_value v' = Some mv" by blast
  have "sanity_checks env key val pwd s =
      bind (tmp_get_hardware_info env) (\<lambda>hw_info.
     bind (lift (py_get hw_info (PStr (lit ''TPM2_PT_NV_BUFFER_MAX'')))) (\<lambda>buffer_max.
     bind (lift (py_get buffer_max (PStr (lit ''raw'')))) (\<lambda>chunk_max_size.
     bind (lift (int_le (int (length val)) chunk_max_size)) (\<lambda>fits_chunk.
     bind (assert fits_chunk Chunk_max_size) (\<lambda>_.
     bind (lift (py_get hw_info (PStr (lit ''TPM2_PT_NV_INDEX_MAX'')))) (\<lambda>index_max.
     bind (lift (py_get index_max (PStr (lit ''raw'')))) (\<lambda>max_value_len.
     bind (lift (int_le (int (length val)) max_value_len)) (\<lambda>fits_index.
     bind (assert fits_index Max_value_len) (\<lambda>_.
     bind (tpm_get_nv_indices env) (\<lambda>nv_indices_list.
     bind (lift (int_in key nv_indices_list)) (\<lambda>used.
     bind (assert (\<not> used) Key_unused) (\<lambda>_.
     assert (truthy pwd \<longrightarrow> 5 \<le> length (the pwd)) Pwd_length)))))))))))) s"
    unfolding sanity_checks_def bind_assert_True [OF range] ..
  also have "\<dots> = (if \<not> int (length val) \<le> m then (Inl (AssertionError Chunk_max_size), s1)
      else if \<not> int (length val) \<le> mv then (Inl (AssertionError Max_value_len), s1)
      else
        bind (tpm_get_nv_indices env) (\<lambda>nv_indices_list.
        bind (lift (int_in key nv_indices_list)) (\<lambda>used.
        bind (assert (\<not> used) Key_unused) (\<lambda>_.
        assert (truthy pwd \<longrightarrow> 5 \<le> length (the pwd)) Pwd_length))) s1)"
    apply (subst bind_def)
    apply (simp only: hw prod.case sum.case)
    apply (simp only: d v d' v' bind_lift_Inr int_le_def vm vm' option.case)
    apply (simp add: bind_assert_True bind_assert_False)
    done
  finally show ?thesis .
qed

lemma sanity_tail_raises:
  "raises_only (asserts_in {Key_unused, Pwd_length})
     (bind (tpm_get_nv_indices env) (\<lambda>nv_indices_list.
        bind (lift (int_in key nv_indices_list)) (\<lambda>used.
        bind (assert (\<not> used) Key_unused) (\<lambda>_.
        assert (truthy pwd \<longrightarrow> 5 \<le> length (the pwd)) Pwd_length))))"
  unfolding tpm_get_nv_indices_def
  by (intro raises_only_bind raises_only_assert run_command_yaml_raises int_in_raises
      asserts_in_site) auto

lemma raises_onlyD: "raises_only (asserts_in A) m \<Longrightarrow> site \<notin> A \<Longrightarrow> fst (m s) \<noteq> Inl (AssertionError site)"
  by (cases "m s") (auto simp: raises_only_def asserts_in_def)

lemma tpm_write_after_checks:
  assumes "sanity_checks env key val pwd s = (Inr (), s1)"
  shows "tpm_write env key val pwd s =
     bind (define_and_write env key val pwd) (\<lambda>_. verify_write env key val pwd) s1"
  unfolding tpm_write_parts by (subst bind_def) (simp add: assms)

lemma tpm_write_checks_fail:
  assumes "sanity_checks env key val pwd s = (Inl e, s1)"
  shows "tpm_write env key val pwd s = (Inl e, s1)"
  unfolding tpm_write_parts by (subst bind_def) (simp add: assms)


lemmas io_eval = bind_def lift_def assert_def return_def raise_def Let_def

lemmas program_eval =
  run_command_def run_command_yaml_def tpm_get_nv_indices_def tpm_get_nv_index_metadata_def
  tpm_read_nvm_def tmp_get_hardware_info_def tpm_write_def tpm_delete_index_def
  truthy_def py_str_def int_le_def nv_attributes_def
  int_str_def int_hex_def int_format_x_def digits.simps digit_char_def lit_def
  text_mode_def cons_option_def strip_def isspace_def utf8_encode_char_def continuation_def
  arg_error_def fsencode_char_def

lemmas sample_eval =
  sample_env_def sample_run_def sample_yaml_def handles_text_def properties_text_def
  public_text_def failed_def nvread_def nvdefine_def nvwrite_def nvundefine_def
  lookup_slot_def parse_number_def digit_value_def properties_doc_def tpm0_def hello_world_def

lemma sample_hw:
  "tmp_get_hardware_info sample_env t = (Inr (hexify properties_doc), t)"
  by (simp add: io_eval program_eval sample_eval)

lemma empty_value_written:
  "tpm_write sample_env 25165825 [] None tpm0 =
     (Inr (), tpm0 @ [\<lparr>slot_address = 25165825, slot_size = 0, slot_auth = [], slot_data = Some []\<rparr>])"
  by (simp add: io_eval program_eval sample_eval)


lemma tpm_write_passes_size_check:
  assumes range: "25165824 \<le> key \<and> key \<le> 29360127"
    and hw: "tmp_get_hardware_info env s = (Inr hw, s1)"
    and m: "reported_limit hw ''TPM2_PT_NV_BUFFER_MAX'' = Some m"
    and mv: "reported_limit hw ''TPM2_PT_NV_INDEX_MAX'' = Some mv"
    and fits: "int (length val) \<le> m" "int (length val) \<le> mv"
    and site: "site = Chunk_max_size \<or> site = Max_value_len"
  shows "fst (tpm_write env key val pwd s) \<noteq> Inl (AssertionError site)"
proof -
  let ?tail = "bind (tpm_get_nv_indices env) (\<lambda>nv_indices_list.
        bind (lift (int_in key nv_indices_list)) (\<lambda>used.
        bind (assert (\<not> used) Key_unused) (\<lambda>_.
        assert (truthy pwd \<longrightarrow> 5 \<le> length (the pwd)) Pwd_length)))"
  have checks: "sanity_checks env key val pwd s = ?tail s1"
    using sanity_checks_size [OF range hw m mv, of val pwd] fits by simp
  obtain r s2 where tail: "?tail s1 = (r, s2)" by (cases "?tail s1")
  show ?thesis
  proof (cases r)
    case (Inl e)
    with sanity_tail_raises [of env key pwd] tail
    have "asserts_in {Key_unused, Pwd_length} e" by (auto simp: raises_only_def)
    moreover from Inl tail checks have "tpm_write env key val pwd s = (Inl e, s2)"
      by (simp add: tpm_write_checks_fail)
    ultimately show ?thesis using site by (auto simp: asserts_in_def)
  next
    case (Inr u)
    with tail checks have eq: "tpm_write env key val pwd s =
        bind (define_and_write env key val pwd) (\<lambda>_. verify_write env key val pwd) s2"
      by (simp add: tpm_write_after_checks)
    have "raises_only (asserts_in {Nv_index_response, Index_exists, Read_back})
        (bind (define_and_write env key val pwd) (\<lambda>_. verify_write env key val pwd))"
      by (intro raises_only_bind define_and_write_raises verify_raises) auto
    from raises_onlyD [OF this, of site s2] eq site show ?thesis by auto
  qed
qed

lemma utf8_encode_ascii: "ascii s \<Longrightarrow> utf8_encode s = Some s"
  by (induction s) (simp_all add: ascii_def utf8_encode_char_def)

lemma sample_limits:
  "reported_limit (hexify properties_doc) ''TPM2_PT_NV_BUFFER_MAX'' = Some 16"
  "reported_limit (hexify properties_doc) ''TPM2_PT_NV_INDEX_MAX'' = Some 32"
  by (simp_all add: reported_limit_def properties_doc_def lit_def)

lemma narrow_hw: "tmp_get_hardware_info narrow_env s = (Inr (hexify narrow_doc), s)"
  by (simp add: io_eval program_eval narrow_env_def)

lemma narrow_limits:
  "reported_limit (hexify narrow_doc) ''TPM2_PT_NV_BUFFER_MAX'' = Some 8"
  "reported_limit (hexify narrow_doc) ''TPM2_PT_NV_INDEX_MAX'' = Some 4"
  by (simp_all add: reported_limit_def narrow_doc_def lit_def)

lemma ascii_replicate: "c < 128 \<Longrightarrow> ascii (replicate n c)"
  by (simp add: ascii_def list_all_iff)

text \<open>
  A value whose length is the transfer limit can fail the size check. The device may report
  a value limit below its transfer limit (the comment at line 196 of the source allows for
  it). With a transfer limit of 8 and a value limit of 4, \<^verbatim>\<open>tpm_write\<close> with a value of 8
  ASCII characters fails the second size assertion.
\<close>

theorem guard_boundaries_counterexample:
  "tmp_get_hardware_info narrow_env () = (Inr (hexify narrow_doc), ())
   \<and> reported_limit (hexify narrow_doc) ''TPM2_PT_NV_BUFFER_MAX'' = Some 8
   \<and> reported_limit (hexify narrow_doc) ''TPM2_PT_NV_INDEX_MAX'' = Some 4
   \<and> int (length (replicate 8 (97::nat))) = 8
   \<and> utf8_encode (replicate 8 97) = Some (replicate 8 97)
   \<and> tpm_write narrow_env 25165843 (replicate 8 97) None ()
        = (Inl (AssertionError Max_value_len), ())"
proof -
  have "sanity_checks narrow_env 25165843 (replicate 8 97) None ()
      = (Inl (AssertionError Max_value_len), ())"
    using sanity_checks_size [OF _ narrow_hw [of "()"] narrow_limits,
        of 25165843 "replicate 8 97" None] by simp
  then have "tpm_write narrow_env 25165843 (replicate 8 97) None ()
      = (Inl (AssertionError Max_value_len), ())"
    by (rule tpm_write_checks_fail)
  then show ?thesis
    by (simp add: narrow_hw narrow_limits utf8_encode_ascii ascii_replicate)
qed

text \<open>
  C8 (as amended). The key \<^verbatim>\<open>0x01BFFFFF\<close> never fails the range assertion of \<^verbatim>\<open>tpm_write\<close>,
  and the key \<^verbatim>\<open>0x01C00000\<close> always fails it, before any call to the device. For a key in
  the range and a device that reports a transfer limit \<open>m\<close> and a value limit \<open>mv\<close>, and
  for values of ASCII characters (whose length is their number of bytes): a value of length
  \<open>m\<close> passes the size check (it fails neither size assertion) when \<open>m \<le> mv\<close>, and fails
  the value size assertion when \<open>mv < m\<close>; a value of length \<open>m + 1\<close> fails the transfer
  size assertion. Both failures come right after the capability query.
\<close>

theorem guard_boundaries:
  "fst (tpm_write env 29360127 val pwd s) \<noteq> Inl (AssertionError Key_in_range)
   \<and> tpm_write env 29360128 val pwd s = (Inl (AssertionError Key_in_range), s)
   \<and> (tmp_get_hardware_info env s = (Inr hw_info, s1)
        \<and> reported_limit hw_info ''TPM2_PT_NV_BUFFER_MAX'' = Some m
        \<and> reported_limit hw_info ''TPM2_PT_NV_INDEX_MAX'' = Some mv
        \<and> 25165824 \<le> key \<and> key \<le> 29360127
        \<and> ascii val \<and> ascii val' \<longrightarrow>
          utf8_encode val = Some val \<and> utf8_encode val' = Some val'
        \<and> (int (length val) = m \<and> m \<le> mv \<longrightarrow>
              fst (tpm_write env key val pwd s) \<noteq> Inl (AssertionError Chunk_max_size)
              \<and> fst (tpm_write env key val pwd s) \<noteq> Inl (AssertionError Max_value_len))
        \<and> (int (length val) = m \<and> mv < m \<longrightarrow>
              tpm_write env key val pwd s = (Inl (AssertionError Max_value_len), s1))
        \<and> (int (length val') = m + 1 \<longrightarrow>
              tpm_write env key val' pwd s = (Inl (AssertionError Chunk_max_size), s1)))"
proof (intro conjI impI; (elim conjE)?)
  have "raises_only (asserts_in (- {Key_in_range})) (tpm_write env 29360127 val pwd)"
    by (rule tpm_write_raises) auto
  from raises_onlyD [OF this]
  show "fst (tpm_write env 29360127 val pwd s) \<noteq> Inl (AssertionError Key_in_range)" by simp
next
  show "tpm_write env 29360128 val pwd s = (Inl (AssertionError Key_in_range), s)"
    by (rule tpm_write_checks_fail) (simp add: sanity_checks_def bind_assert_False)
next
  assume "ascii val"
  then show "utf8_encode val = Some val" by (rule utf8_encode_ascii)
next
  assume "ascii val'"
  then show "utf8_encode val' = Some val'" by (rule utf8_encode_ascii)
next
  assume hw: "tmp_get_hardware_info env s = (Inr hw_info, s1)"
    and m: "reported_limit hw_info ''TPM2_PT_NV_BUFFER_MAX'' = Some m"
    and mv: "reported_limit hw_info ''TPM2_PT_NV_INDEX_MAX'' = Some mv"
    and lo: "25165824 \<le> key" and hi: "key \<le> 29360127"
    and len: "int (length val) = m" "m \<le> mv"
  from lo hi have range: "25165824 \<le> key \<and> key \<le> 29360127" ..
  from len tpm_write_passes_size_check [OF range hw m mv, of val Chunk_max_size pwd]
  show "fst (tpm_write env key val pwd s) \<noteq> Inl (AssertionError Chunk_max_size)" by simp
next
  assume hw: "tmp_get_hardware_info env s = (Inr hw_info, s1)"
    and m: "reported_limit hw_info ''TPM2_PT_NV_BUFFER_MAX'' = Some m"
    and mv: "reported_limit hw_info ''TPM2_PT_NV_INDEX_MAX'' = Some mv"
    and lo: "25165824 \<le> key" and hi: "key \<le> 29360127"
    and len: "int (length val) = m" "m \<le> mv"
  from lo hi have range: "25165824 \<le> key \<and> key \<le> 29360127" ..
  from len tpm_write_passes_size_check [OF range hw m mv, of val Max_value_len pwd]
  show "fst (tpm_write env key val pwd s) \<noteq> Inl (AssertionError Max_value_len)" by simp
next
  assume hw: "tmp_get_hardware_info env s = (Inr hw_info, s1)"
    and m: "reported_limit hw_info ''TPM2_PT_NV_BUFFER_MAX'' = Some m"
    and mv: "reported_limit hw_info ''TPM2_PT_NV_INDEX_MAX'' = Some mv"
    and lo: "25165824 \<le> key" and hi: "key \<le> 29360127"
    and len: "int (length val) = m" "mv < m"
  from lo hi have range: "25165824 \<le> key \<and> key \<le> 29360127" ..
  from len sanity_checks_size [OF range hw m mv, of val pwd]
  have "sanity_checks env key val pwd s = (Inl (AssertionError Max_value_len), s1)" by simp
  then show "tpm_write env key val pwd s = (Inl (AssertionError Max_value_len), s1)"
    by (rule tpm_write_checks_fail)
next
  assume hw: "tmp_get_hardware_info env s = (Inr hw_info, s1)"
    and m: "reported_limit hw_info ''TPM2_PT_NV_BUFFER_MAX'' = Some m"
    and mv: "reported_limit hw_info ''TPM2_PT_NV_INDEX_MAX'' = Some mv"
    and lo: "25165824 \<le> key" and hi: "key \<le> 29360127"
    and len: "int (length val') = m + 1"
  from lo hi have range: "25165824 \<le> key \<and> key \<le> 29360127" ..
  from len sanity_checks_size [OF range hw m mv, of val' pwd]
  have "sanity_checks env key val' pwd s = (Inl (AssertionError Chunk_max_size), s1)" by simp
  then show "tpm_write env key val' pwd s = (Inl (AssertionError Chunk_max_size), s1)"
    by (rule tpm_write_checks_fail)
qed

theorem guard_boundaries_witness:
  "tmp_get_hardware_info sample_env tpm0 = (Inr (hexify properties_doc), tpm0)
   \<and> reported_limit (hexify properties_doc) ''TPM2_PT_NV_BUFFER_MAX'' = Some 16
   \<and> reported_limit (hexify properties_doc) ''TPM2_PT_NV_INDEX_MAX'' = Some 32
   \<and> (25165824::int) \<le> 29360127 \<and> (29360127::int) \<le> 29360127
   \<and> ascii (replicate 16 97) \<and> ascii (replicate 17 97)
   \<and> int (length (replicate 16 (97::nat))) = 16 \<and> (16::int) \<le> 32
   \<and> int (length (replicate 17 (97::nat))) = 16 + 1
   \<and> fst (tpm_write sample_env 29360127 (replicate 16 97) None tpm0)
        \<noteq> Inl (AssertionError Key_in_range)
   \<and> tpm_write sample_env 29360128 (replicate 16 97) None tpm0
        = (Inl (AssertionError Key_in_range), tpm0)
   \<and> fst (tpm_write sample_env 29360127 (replicate 16 97) None tpm0)
        \<noteq> Inl (AssertionError Chunk_max_size)
   \<and> fst (tpm_write sample_env 29360127 (replicate 16 97) None tpm0)
        \<noteq> Inl (AssertionError Max_value_len)
   \<and> tpm_write sample_env 29360127 (replicate 17 97) None tpm0
        = (Inl (AssertionError Chunk_max_size), tpm0)
   \<and> tmp_get_hardware_info narrow_env () = (Inr (hexify narrow_doc), ())
   \<and> reported_limit (hexify narrow_doc) ''TPM2_PT_NV_BUFFER_MAX'' = Some 8
   \<and> reported_limit (hexify narrow_doc) ''TPM2_PT_NV_INDEX_MAX'' = Some 4
   \<and> ascii (replicate 8 97) \<and> ascii (replicate 9 97)
   \<and> int (length (replicate 8 (97::nat))) = 8 \<and> (4::int) < 8
   \<and> tpm_write narrow_env 29360127 (replicate 8 97) None ()
        = (Inl (AssertionError Max_value_len), ())"
proof -
  note wide = guard_boundaries [of sample_env "replicate 16 97" None tpm0
      "hexify properties_doc" tpm0 16 32 29360127 "replicate 17 97"]
  note narrow = guard_boundaries [of narrow_env "replicate 8 97" None "()"
      "hexify narrow_doc" "()" 8 4 29360127 "replicate 9 97"]
  from wide narrow show ?thesis
    by (simp add: sample_hw sample_limits narrow_hw narrow_limits ascii_replicate)
qed


lemma raises_only_assert_True: "b \<Longrightarrow> raises_only Q (assert b site)"
  by (simp add: raises_only_def assert_def return_def)

lemma traced_simps:
  "yaml_safe_load_all (traced env) = yaml_safe_load_all env"
  "container_repr (traced env) = container_repr env"
  "os_fsencode (traced env) = os_fsencode env"
  "subprocess_run (traced env) command inp (s, tr) =
     (fst (subprocess_run env command inp s),
      (snd (subprocess_run env command inp s), tr @ [(command, inp)]))"
  by (simp_all add: traced_def split: prod.splits)

lemma py_str_traced: "py_str (traced env) = py_str env"
  by (rule ext) (simp add: py_str_def traced_simps split: pyval.splits)

lemma argv_error_traced: "argv_error (traced env) command = argv_error env command"
  by (induction command) (simp_all add: arg_error_def traced_simps split: option.splits)

lemma issues_only_bind:
  "issues_only P m \<Longrightarrow> (\<And>x. issues_only P (f x)) \<Longrightarrow> issues_only P (bind m f)"
proof (unfold issues_only_def, intro allI impI)
  fix s tr r s' tr'
  assume m: "\<forall>s tr r s' tr'. m (s, tr) = (r, s', tr') \<longrightarrow> (\<exists>new. tr' = tr @ new \<and> (\<forall>c\<in>set new. P c))"
    and f: "\<And>x. \<forall>s tr r s' tr'. f x (s, tr) = (r, s', tr') \<longrightarrow> (\<exists>new. tr' = tr @ new \<and> (\<forall>c\<in>set new. P c))"
    and run: "bind m f (s, tr) = (r, s', tr')"
  obtain r1 s1 tr1 where m1: "m (s, tr) = (r1, s1, tr1)" by (cases "m (s, tr)") auto
  with m obtain new1 where new1: "tr1 = tr @ new1" "\<forall>c\<in>set new1. P c" by blast
  show "\<exists>new. tr' = tr @ new \<and> (\<forall>c\<in>set new. P c)"
  proof (cases r1)
    case (Inl e)
    with m1 run have "tr' = tr1" by (simp add: bind_def)
    with new1 show ?thesis by blast
  next
    case (Inr x)
    with m1 run have "f x (s1, tr1) = (r, s', tr')" by (simp add: bind_def)
    with f [of x] obtain new2 where "tr' = tr1 @ new2" "\<forall>c\<in>set new2. P c" by blast
    with new1 have "tr' = tr @ (new1 @ new2) \<and> (\<forall>c\<in>set (new1 @ new2). P c)" by auto
    then show ?thesis by blast
  qed
qed

lemma issues_only_lift: "issues_only P (lift r)"
  by (simp add: issues_only_def lift_def)

lemma issues_only_assert: "issues_only P (assert b site)"
  by (simp add: issues_only_def assert_def return_def raise_def)

lemma issues_only_return: "issues_only P (return x)"
  by (simp add: issues_only_def return_def)

lemma run_command_issues:
  "P (command, inp) \<Longrightarrow> issues_only P (run_command (traced env) command inp)"
  by (auto simp: issues_only_def run_command_def traced_simps argv_error_traced
      split: run_outcome.splits option.splits if_splits)

lemma run_command_yaml_issues:
  "P (command, None) \<Longrightarrow> issues_only P (run_command_yaml (traced env) command)"
  by (auto simp: issues_only_def run_command_yaml_def traced_simps argv_error_traced
      split: run_outcome.splits option.splits if_splits)

lemma metadata_issues:
  "P ([lit ''tpm2_getcap'', lit ''handles-nv-index''], None) \<Longrightarrow>
   P ([lit ''tpm2_nvreadpublic'', int_str index], None) \<Longrightarrow>
   issues_only P (tpm_get_nv_index_metadata (traced env) index)"
  unfolding tpm_get_nv_index_metadata_def tpm_get_nv_indices_def
  by (intro issues_only_bind issues_only_lift issues_only_assert run_command_yaml_issues)

lemma read_tail_issues:
  "P (command, None) \<Longrightarrow>
   issues_only P (\<lambda>s. case run_command (traced env) command None s of
            (Inr result, s') \<Rightarrow>
              (case utf8_decode (stdout result) of
                 Some result_str \<Rightarrow> (Inr (Text result_str), s')
               | None \<Rightarrow> (Inr (Caught UnicodeDecodeError), s'))
          | (Inl (SystemExit c rc out err), s') \<Rightarrow> (Inl (SystemExit c rc out err), s')
          | (Inl e, s') \<Rightarrow> (Inr (Caught e), s'))"
  by (auto simp: issues_only_def run_command_def traced_simps argv_error_traced
      split: run_outcome.splits if_splits option.splits)

lemma read_issues:
  assumes "P ([lit ''tpm2_getcap'', lit ''handles-nv-index''], None)"
    and "P ([lit ''tpm2_nvreadpublic'', int_str index], None)"
    and "\<And>n. P (read_command env index n pwd, None)"
  shows "issues_only P (tpm_read_nvm (traced env) index pwd)"
  unfolding tpm_read_nvm_def Let_def py_str_traced
  apply (intro issues_only_bind issues_only_lift metadata_issues assms(1,2) read_tail_issues)
  using assms(3) apply (simp add: read_command_def)
  done

lemma sanity_checks_issues:
  assumes "P ([lit ''tpm2_getcap'', lit ''properties-fixed''], None)"
    and "P ([lit ''tpm2_getcap'', lit ''handles-nv-index''], None)"
  shows "issues_only P (sanity_checks (traced env) key val pwd)"
  unfolding sanity_checks_def tmp_get_hardware_info_def tpm_get_nv_indices_def
  by (intro issues_only_bind issues_only_lift issues_only_assert run_command_yaml_issues assms)

lemma define_and_write_issues:
  assumes "P (define_command key val pwd, None)"
    and "\<And>b. P (write_command key pwd, Some b)"
  shows "issues_only P (define_and_write (traced env) key val pwd)"
  unfolding define_and_write_def
  by (intro issues_only_bind issues_only_lift issues_only_assert run_command_yaml_issues
      run_command_issues assms)

lemma verify_issues:
  assumes "P ([lit ''tpm2_getcap'', lit ''handles-nv-index''], None)"
    and "P ([lit ''tpm2_nvreadpublic'', int_str key], None)"
    and "\<And>n. P (read_command env key n pwd, None)"
  shows "issues_only P (verify_write (traced env) key val pwd)"
  unfolding verify_write_def
  by (intro issues_only_bind issues_only_assert read_issues assms)

lemma tpm_write_issues:
  assumes "P ([lit ''tpm2_getcap'', lit ''properties-fixed''], None)"
    and "P ([lit ''tpm2_getcap'', lit ''handles-nv-index''], None)"
    and "P (define_command key val pwd, None)"
    and "\<And>b. P (write_command key pwd, Some b)"
    and "P ([lit ''tpm2_nvreadpublic'', int_str key], None)"
    and "\<And>n. P (read_command env key n pwd, None)"
  shows "issues_only P (tpm_write (traced env) key val pwd)"
  unfolding tpm_write_parts
  by (intro issues_only_bind sanity_checks_issues define_and_write_issues verify_issues assms)

lemma delete_issues:
  assumes "P ([lit ''tpm2_getcap'', lit ''handles-nv-index''], None)"
    and "P ([lit ''tpm2_nvundefine'', lit ''-C'', lit ''o'', lit ''0x'' @ int_format_x key], None)"
  shows "issues_only P (tpm_delete_index (traced env) key)"
  unfolding tpm_delete_index_def tpm_get_nv_indices_def
  by (intro issues_only_bind issues_only_lift issues_only_assert issues_only_return
      run_command_yaml_issues run_command_issues assms)

lemma issues_onlyD:
  "issues_only P m \<Longrightarrow> m (s, tr) = (r, (s', tr')) \<Longrightarrow> \<exists>new. tr' = tr @ new \<and> (\<forall>c\<in>set new. P c)"
  unfolding issues_only_def by blast


lemma sanity_checks_raises_nopwd:
  assumes "\<not> truthy pwd"
  shows "raises_only (asserts_in {Key_in_range, Chunk_max_size, Max_value_len, Key_unused})
           (sanity_checks env key val pwd)"
proof -
  have last: "assert (truthy pwd \<longrightarrow> 5 \<le> length (the pwd)) Pwd_length = return ()"
    using assms by (simp add: assert_def)
  show ?thesis
    unfolding sanity_checks_def tmp_get_hardware_info_def tpm_get_nv_indices_def last
    by (intro raises_only_bind raises_only_assert raises_only_return run_command_yaml_raises
        py_get_raises int_in_raises int_le_raises asserts_in_site) auto
qed

lemma tpm_write_raises_nopwd:
  assumes "\<not> truthy pwd"
  shows "raises_only (asserts_in (- {Pwd_length})) (tpm_write env key val pwd)"
  unfolding tpm_write_parts
  apply (intro raises_only_bind define_and_write_raises verify_raises)
     apply (rule raises_only_mono [OF sanity_checks_raises_nopwd [OF assms]])
     apply (auto simp: asserts_in_def)
  done

lemma traceD:
  assumes "issues_only P m"
  shows "\<forall>c\<in>set (drop (length tr) (snd (snd (m (s, tr))))). P c"
proof -
  obtain r s' tr' where run: "m (s, tr) = (r, (s', tr'))" by (cases "m (s, tr)") auto
  from issues_onlyD [OF assms this] obtain new where "tr' = tr @ new" "\<forall>c\<in>set new. P c" by blast
  with run show ?thesis by simp
qed

lemma sample_write_open:
  "tpm_write (traced sample_env) 25165843 (lit ''abcyo'') None (tpm0, []) =
     (Inr (), (tpm_open,
       [([lit ''tpm2_getcap'', lit ''properties-fixed''], None),
        ([lit ''tpm2_getcap'', lit ''handles-nv-index''], None),
        ([lit ''tpm2_nvdefine'', lit ''-C'', lit ''o'', lit ''-s'', lit ''5'', lit ''-a'',
          lit ''authread|authwrite|no_da|orderly'', lit ''0x1800013''], None),
        ([lit ''tpm2_nvwrite'', lit ''-C'', lit ''0x1800013'', lit ''-i'', lit ''-'',
          lit ''0x1800013''], Some (lit ''abcyo'')),
        ([lit ''tpm2_getcap'', lit ''handles-nv-index''], None),
        ([lit ''tpm2_nvreadpublic'', lit ''25165843''], None),
        ([lit ''tpm2_nvread'', lit ''-C'', lit ''25165843'', lit ''-s'', lit ''0x5'',
          lit ''25165843''], None)]))"
  by (simp add: io_eval program_eval sample_eval traced_def tpm_open_def)

lemma sample_write_protected:
  "tpm_write (traced sample_env) 25165843 (lit ''abcyoo'') (Some (lit ''abcde'')) (tpm0, []) =
     (Inr (), (tpm_protected,
       [([lit ''tpm2_getcap'', lit ''properties-fixed''], None),
        ([lit ''tpm2_getcap'', lit ''handles-nv-index''], None),
        ([lit ''tpm2_nvdefine'', lit ''-C'', lit ''o'', lit ''-s'', lit ''6'', lit ''-a'',
          lit ''authread|authwrite|no_da|orderly'', lit ''-p'', lit ''abcde'', lit ''0x1800013''], None),
        ([lit ''tpm2_nvwrite'', lit ''-C'', lit ''0x1800013'', lit ''-P'', lit ''abcde'',
          lit ''-i'', lit ''-'', lit ''0x1800013''], Some (lit ''abcyoo'')),
        ([lit ''tpm2_getcap'', lit ''handles-nv-index''], None),
        ([lit ''tpm2_nvreadpublic'', lit ''25165843''], None),
        ([lit ''tpm2_nvread'', lit ''-C'', lit ''25165843'', lit ''-s'', lit ''0x6'',
          lit ''25165843'', lit ''-P'', lit ''abcde''], None)]))"
  by (simp add: io_eval program_eval sample_eval traced_def tpm_protected_def)

lemma sample_write_protected_plain:
  "tpm_write sample_env 25165843 (lit ''abcyoo'') (Some (lit ''abcde'')) tpm0 = (Inr (), tpm_protected)"
  by (simp add: io_eval program_eval sample_eval tpm_protected_def)

lemma sample_read_protected:
  "tpm_read_nvm sample_env 25165843 (Some (lit ''abcde'')) tpm_protected
     = (Inr (Text (lit ''abcyoo'')), tpm_protected)"
  by (simp add: io_eval program_eval sample_eval tpm_protected_def)

lemma sample_read_denied:
  "tpm_read_nvm sample_env 25165843 None tpm_protected
     = (Inl (SystemExit [lit ''tpm2_nvread'', lit ''-C'', lit ''25165843'', lit ''-s'', lit ''0x6'',
                         lit ''25165843''] 1 []
              (lit ''ERROR: authorization failure without DA implications'')), tpm_protected)"
  by (simp add: io_eval program_eval sample_eval tpm_protected_def)



text \<open>
  C9. An empty password is no password: \<^verbatim>\<open>tpm_write\<close> and \<^verbatim>\<open>tpm_read_nvm\<close> called with
  \<^verbatim>\<open>pwd=""\<close> do what they do with \<^verbatim>\<open>pwd=None\<close>. The minimum length of 5 is not
  applied (the password assertion does not fail), and every command sent to the tools is
  one without a password argument: \<^verbatim>\<open>tpm2_nvdefine\<close> has no \<^verbatim>\<open>-p\<close>, \<^verbatim>\<open>tpm2_nvwrite\<close> and
  \<^verbatim>\<open>tpm2_nvread\<close> have no \<^verbatim>\<open>-P\<close>.
\<close>

theorem empty_password_is_no_password:
  "tpm_write env key val (Some []) = tpm_write env key val None
   \<and> tpm_read_nvm env index (Some []) = tpm_read_nvm env index None
   \<and> fst (tpm_write env key val (Some []) s) \<noteq> Inl (AssertionError Pwd_length)
   \<and> (\<forall>c\<in>set (drop (length tr) (snd (snd (tpm_write (traced env) key val (Some []) (s, tr))))).
        fst c \<in> {[lit ''tpm2_getcap'', lit ''properties-fixed''],
                 [lit ''tpm2_getcap'', lit ''handles-nv-index''],
                 [lit ''tpm2_nvdefine'', lit ''-C'', lit ''o'', lit ''-s'', int_str (int (length val)),
                  lit ''-a'', lit ''authread|authwrite|no_da|orderly'', lit ''0x'' @ int_format_x key],
                 [lit ''tpm2_nvwrite'', lit ''-C'', lit ''0x'' @ int_format_x key,
                  lit ''-i'', lit ''-'', lit ''0x'' @ int_format_x key],
                 [lit ''tpm2_nvreadpublic'', int_str key]}
        \<or> (\<exists>n. fst c = [lit ''tpm2_nvread'', lit ''-C'', int_str key, lit ''-s'', n, int_str key]))
   \<and> (\<forall>c\<in>set (drop (length tr) (snd (snd (tpm_read_nvm (traced env) index (Some []) (s, tr))))).
        fst c \<in> {[lit ''tpm2_getcap'', lit ''handles-nv-index''],
                 [lit ''tpm2_nvreadpublic'', int_str index]}
        \<or> (\<exists>n. fst c = [lit ''tpm2_nvread'', lit ''-C'', int_str index, lit ''-s'', n, int_str index]))"
proof (intro conjI)
  show "tpm_write env key val (Some []) = tpm_write env key val None"
    by (simp add: tpm_write_def tpm_read_nvm_def truthy_def)
  show "tpm_read_nvm env index (Some []) = tpm_read_nvm env index None"
    by (simp add: tpm_read_nvm_def truthy_def)
  have "raises_only (asserts_in (- {Pwd_length})) (tpm_write env key val (Some []))"
    by (rule tpm_write_raises_nopwd) (simp add: truthy_def)
  from raises_onlyD [OF this]
  show "fst (tpm_write env key val (Some []) s) \<noteq> Inl (AssertionError Pwd_length)" by simp
  show "\<forall>c\<in>set (drop (length tr) (snd (snd (tpm_write (traced env) key val (Some []) (s, tr))))).
        fst c \<in> {[lit ''tpm2_getcap'', lit ''properties-fixed''],
                 [lit ''tpm2_getcap'', lit ''handles-nv-index''],
                 [lit ''tpm2_nvdefine'', lit ''-C'', lit ''o'', lit ''-s'', int_str (int (length val)),
                  lit ''-a'', lit ''authread|authwrite|no_da|orderly'', lit ''0x'' @ int_format_x key],
                 [lit ''tpm2_nvwrite'', lit ''-C'', lit ''0x'' @ int_format_x key,
                  lit ''-i'', lit ''-'', lit ''0x'' @ int_format_x key],
                 [lit ''tpm2_nvreadpublic'', int_str key]}
        \<or> (\<exists>n. fst c = [lit ''tpm2_nvread'', lit ''-C'', int_str key, lit ''-s'', n, int_str key])"
    by (rule traceD, rule tpm_write_issues)
      (simp_all add: define_command_def write_command_def read_command_def truthy_def
        nv_attributes_def)
  show "\<forall>c\<in>set (drop (length tr) (snd (snd (tpm_read_nvm (traced env) index (Some []) (s, tr))))).
        fst c \<in> {[lit ''tpm2_getcap'', lit ''handles-nv-index''],
                 [lit ''tpm2_nvreadpublic'', int_str index]}
        \<or> (\<exists>n. fst c = [lit ''tpm2_nvread'', lit ''-C'', int_str index, lit ''-s'', n, int_str index])"
    by (rule traceD, rule read_issues) (simp_all add: read_command_def truthy_def)
qed



theorem empty_password_is_no_password_witness:
  "tpm_write sample_env 25165843 (lit ''abcyo'') (Some []) tpm0
     = tpm_write sample_env 25165843 (lit ''abcyo'') None tpm0
   \<and> fst (tpm_write sample_env 25165843 (lit ''abcyo'') (Some []) tpm0)
       \<noteq> Inl (AssertionError Pwd_length)
   \<and> tpm_write (traced sample_env) 25165843 (lit ''abcyo'') (Some []) (tpm0, []) =
     (Inr (), (tpm_open,
       [([lit ''tpm2_getcap'', lit ''properties-fixed''], None),
        ([lit ''tpm2_getcap'', lit ''handles-nv-index''], None),
        ([lit ''tpm2_nvdefine'', lit ''-C'', lit ''o'', lit ''-s'', lit ''5'', lit ''-a'',
          lit ''authread|authwrite|no_da|orderly'', lit ''0x1800013''], None),
        ([lit ''tpm2_nvwrite'', lit ''-C'', lit ''0x1800013'', lit ''-i'', lit ''-'',
          lit ''0x1800013''], Some (lit ''abcyo'')),
        ([lit ''tpm2_getcap'', lit ''handles-nv-index''], None),
        ([lit ''tpm2_nvreadpublic'', lit ''25165843''], None),
        ([lit ''tpm2_nvread'', lit ''-C'', lit ''25165843'', lit ''-s'', lit ''0x5'',
          lit ''25165843''], None)]))"
proof -
  note plain = empty_password_is_no_password
    [of sample_env 25165843 "lit ''abcyo''" 25165824 tpm0 "[]"]
  note with_trace = empty_password_is_no_password
    [of "traced sample_env" 25165843 "lit ''abcyo''" 25165824 "(tpm0, [])" "[]"]
  from plain have same: "tpm_write sample_env 25165843 (lit ''abcyo'') (Some []) tpm0
     = tpm_write sample_env 25165843 (lit ''abcyo'') None tpm0"
    by (elim conjE) (erule fun_cong)
  from plain have policy: "fst (tpm_write sample_env 25165843 (lit ''abcyo'') (Some []) tpm0)
       \<noteq> Inl (AssertionError Pwd_length)"
    by (elim conjE)
  from with_trace have "tpm_write (traced sample_env) 25165843 (lit ''abcyo'') (Some []) (tpm0, [])
     = tpm_write (traced sample_env) 25165843 (lit ''abcyo'') None (tpm0, [])"
    by (elim conjE) (erule fun_cong)
  with same policy show ?thesis by (simp only: sample_write_open simp_thms)
qed

text \<open>
  The empty value is not rejected: on the sample device \<^verbatim>\<open>tpm_write\<close> with \<^verbatim>\<open>value=""\<close>
  passes the checks, defines an index of size 0, writes and reads it back, and returns.
\<close>

theorem size_check_counterexample:
  "length ([] :: str) = 0
   \<and> tpm_write (traced sample_env) 25165843 [] None (tpm0, []) =
     (Inr (), (tpm0 @ [\<lparr>slot_address = 25165843, slot_size = 0, slot_auth = [],
                        slot_data = Some []\<rparr>],
       [([lit ''tpm2_getcap'', lit ''properties-fixed''], None),
        ([lit ''tpm2_getcap'', lit ''handles-nv-index''], None),
        ([lit ''tpm2_nvdefine'', lit ''-C'', lit ''o'', lit ''-s'', lit ''0'', lit ''-a'',
          lit ''authread|authwrite|no_da|orderly'', lit ''0x1800013''], None),
        ([lit ''tpm2_nvwrite'', lit ''-C'', lit ''0x1800013'', lit ''-i'', lit ''-'',
          lit ''0x1800013''], Some []),
        ([lit ''tpm2_getcap'', lit ''handles-nv-index''], None),
        ([lit ''tpm2_nvreadpublic'', lit ''25165843''], None),
        ([lit ''tpm2_nvread'', lit ''-C'', lit ''25165843'', lit ''-s'', lit ''0x0'',
          lit ''25165843''], None)]))"
  by (simp add: io_eval program_eval sample_eval traced_def)

text \<open>
  C5 (as amended). For a value of ASCII characters (its length is the number of bytes that
  are written) and a device that reports a transfer limit \<open>m\<close> and a value limit \<open>mv\<close>,
  the size check of \<^verbatim>\<open>tpm_write\<close> fails exactly when \<^verbatim>\<open>len(value)\<close> exceeds \<open>m\<close> (first
  assertion) or, fitting \<open>m\<close>, exceeds \<open>mv\<close> (second assertion), right after the capability
  query and before any other command. There is no lower bound: a value within both limits,
  the empty value among them, fails neither assertion.
\<close>

theorem size_check:
  assumes "tmp_get_hardware_info env s = (Inr hw_info, s1)"
    and "reported_limit hw_info ''TPM2_PT_NV_BUFFER_MAX'' = Some m"
    and "reported_limit hw_info ''TPM2_PT_NV_INDEX_MAX'' = Some mv"
    and "25165824 \<le> key \<and> key \<le> 29360127"
    and "ascii val"
  shows "utf8_encode val = Some val
       \<and> (m < int (length val) \<longrightarrow>
            tpm_write env key val pwd s = (Inl (AssertionError Chunk_max_size), s1))
       \<and> (int (length val) \<le> m \<and> mv < int (length val) \<longrightarrow>
            tpm_write env key val pwd s = (Inl (AssertionError Max_value_len), s1))
       \<and> (int (length val) \<le> m \<and> int (length val) \<le> mv \<longrightarrow>
            fst (tpm_write env key val pwd s) \<noteq> Inl (AssertionError Chunk_max_size)
            \<and> fst (tpm_write env key val pwd s) \<noteq> Inl (AssertionError Max_value_len))
       \<and> (0 \<le> m \<and> 0 \<le> mv \<longrightarrow>
            fst (tpm_write env key [] pwd s) \<noteq> Inl (AssertionError Chunk_max_size)
            \<and> fst (tpm_write env key [] pwd s) \<noteq> Inl (AssertionError Max_value_len))"
proof (intro conjI impI)
  from assms(5) show "utf8_encode val = Some val" by (rule utf8_encode_ascii)
next
  assume "m < int (length val)"
  with sanity_checks_size [OF assms(4,1,2,3), of val pwd]
  have "sanity_checks env key val pwd s = (Inl (AssertionError Chunk_max_size), s1)" by simp
  then show "tpm_write env key val pwd s = (Inl (AssertionError Chunk_max_size), s1)"
    by (rule tpm_write_checks_fail)
next
  assume "int (length val) \<le> m \<and> mv < int (length val)"
  with sanity_checks_size [OF assms(4,1,2,3), of val pwd]
  have "sanity_checks env key val pwd s = (Inl (AssertionError Max_value_len), s1)" by simp
  then show "tpm_write env key val pwd s = (Inl (AssertionError Max_value_len), s1)"
    by (rule tpm_write_checks_fail)
next
  assume fits: "int (length val) \<le> m \<and> int (length val) \<le> mv"
  with tpm_write_passes_size_check [OF assms(4,1,2,3), of val Chunk_max_size pwd]
  show "fst (tpm_write env key val pwd s) \<noteq> Inl (AssertionError Chunk_max_size)" by simp
  from fits tpm_write_passes_size_check [OF assms(4,1,2,3), of val Max_value_len pwd]
  show "fst (tpm_write env key val pwd s) \<noteq> Inl (AssertionError Max_value_len)" by simp
next
  assume pos: "0 \<le> m \<and> 0 \<le> mv"
  with tpm_write_passes_size_check [OF assms(4,1,2,3), of "[]" Chunk_max_size pwd]
  show "fst (tpm_write env key [] pwd s) \<noteq> Inl (AssertionError Chunk_max_size)" by simp
  from pos tpm_write_passes_size_check [OF assms(4,1,2,3), of "[]" Max_value_len pwd]
  show "fst (tpm_write env key [] pwd s) \<noteq> Inl (AssertionError Max_value_len)" by simp
qed

lemma ascii_abcyo: "ascii (lit ''abcyo'')"
  by (simp add: ascii_def lit_def)

theorem size_check_witness:
  "tmp_get_hardware_info sample_env tpm0 = (Inr (hexify properties_doc), tpm0)
   \<and> reported_limit (hexify properties_doc) ''TPM2_PT_NV_BUFFER_MAX'' = Some 16
   \<and> reported_limit (hexify properties_doc) ''TPM2_PT_NV_INDEX_MAX'' = Some 32
   \<and> (25165824::int) \<le> 25165843 \<and> (25165843::int) \<le> 29360127
   \<and> ascii (replicate 17 97) \<and> ascii (lit ''abcyo'')
   \<and> (16::int) < int (length (replicate 17 (97::nat)))
   \<and> tpm_write sample_env 25165843 (replicate 17 97) None tpm0
        = (Inl (AssertionError Chunk_max_size), tpm0)
   \<and> int (length (lit ''abcyo'')) \<le> 16 \<and> int (length (lit ''abcyo'')) \<le> 32
   \<and> utf8_encode (lit ''abcyo'') = Some (lit ''abcyo'')
   \<and> fst (tpm_write sample_env 25165843 (lit ''abcyo'') None tpm0)
        \<noteq> Inl (AssertionError Chunk_max_size)
   \<and> fst (tpm_write sample_env 25165843 (lit ''abcyo'') None tpm0)
        \<noteq> Inl (AssertionError Max_value_len)
   \<and> fst (tpm_write sample_env 25165843 [] None tpm0) \<noteq> Inl (AssertionError Chunk_max_size)
   \<and> fst (tpm_write sample_env 25165843 [] None tpm0) \<noteq> Inl (AssertionError Max_value_len)
   \<and> tmp_get_hardware_info narrow_env () = (Inr (hexify narrow_doc), ())
   \<and> reported_limit (hexify narrow_doc) ''TPM2_PT_NV_BUFFER_MAX'' = Some 8
   \<and> reported_limit (hexify narrow_doc) ''TPM2_PT_NV_INDEX_MAX'' = Some 4
   \<and> int (length (lit ''abcyo'')) \<le> 8 \<and> 4 < int (length (lit ''abcyo''))
   \<and> tpm_write narrow_env 25165843 (lit ''abcyo'') None ()
        = (Inl (AssertionError Max_value_len), ())"
proof -
  have range: "(25165824::int) \<le> 25165843 \<and> (25165843::int) \<le> 29360127" by simp
  have long_ascii: "ascii (replicate 17 97)" by (rule ascii_replicate) simp
  note long = size_check [OF sample_hw [of tpm0] sample_limits range long_ascii,
      where pwd = None]
  note short = size_check [OF sample_hw [of tpm0] sample_limits range ascii_abcyo,
      where pwd = None]
  note narrow = size_check [OF narrow_hw [of "()"] narrow_limits range ascii_abcyo,
      where pwd = None]
  have len: "int (length (lit ''abcyo'')) = 5" by (simp add: lit_def)
  from long short narrow show ?thesis
    by (simp add: sample_hw sample_limits narrow_hw narrow_limits len long_ascii ascii_abcyo)
qed

lemma keeps_state_bind:
  "keeps_state m \<Longrightarrow> (\<And>x. keeps_state (f x)) \<Longrightarrow> keeps_state (bind m f)"
  unfolding keeps_state_def bind_def
  by (auto split: prod.splits sum.splits) (metis snd_conv)+

lemma keeps_state_lift: "keeps_state (lift r)"
  by (simp add: keeps_state_def lift_def)

lemma keeps_state_assert: "keeps_state (assert b site)"
  by (simp add: keeps_state_def assert_def return_def raise_def)

lemma run_command_keeps:
  "queries_keep_state env \<Longrightarrow> is_query command \<Longrightarrow> keeps_state (run_command env command inp)"
  unfolding keeps_state_def queries_keep_state_def run_command_def
  by (auto split: prod.splits run_outcome.splits option.splits) (metis snd_conv)+

lemma run_command_yaml_keeps:
  "queries_keep_state env \<Longrightarrow> is_query command \<Longrightarrow> keeps_state (run_command_yaml env command)"
  unfolding keeps_state_def queries_keep_state_def run_command_yaml_def
  by (auto split: prod.splits run_outcome.splits option.splits) (metis snd_conv)+

lemma is_query_simps:
  "is_query [lit ''tpm2_getcap'', a]"
  "is_query [lit ''tpm2_nvreadpublic'', b]"
  "is_query (lit ''tpm2_nvread'' # args)"
  by (simp_all add: is_query_def)

lemma metadata_keeps:
  "queries_keep_state env \<Longrightarrow> keeps_state (tpm_get_nv_index_metadata env index)"
  unfolding tpm_get_nv_index_metadata_def tpm_get_nv_indices_def
  by (intro keeps_state_bind keeps_state_lift keeps_state_assert run_command_yaml_keeps
      is_query_simps)

lemma read_keeps:
  assumes "queries_keep_state env"
  shows "keeps_state (tpm_read_nvm env index pwd)"
  unfolding tpm_read_nvm_def Let_def
proof (intro keeps_state_bind keeps_state_lift metadata_keeps assms)
  fix nv_index entry nvm_length
  let ?command = "[lit ''tpm2_nvread'', lit ''-C'', int_str index, lit ''-s'',
      py_str env nvm_length, int_str index] @ (if truthy pwd then [lit ''-P'', the pwd] else [])"
  have "is_query ?command" by (simp add: is_query_def)
  from run_command_keeps [OF assms this, of None]
  have "\<And>s. snd (run_command env ?command None s) = s" by (simp add: keeps_state_def)
  then show "keeps_state (\<lambda>s. case run_command env ?command None s of
            (Inr result, s') \<Rightarrow>
              (case utf8_decode (stdout result) of
                 Some result_str \<Rightarrow> (Inr (Text result_str), s')
               | None \<Rightarrow> (Inr (Caught UnicodeDecodeError), s'))
          | (Inl (SystemExit c rc out err), s') \<Rightarrow> (Inl (SystemExit c rc out err), s')
          | (Inl e, s') \<Rightarrow> (Inr (Caught e), s'))"
    unfolding keeps_state_def
    by (auto split: prod.splits sum.splits option.splits error.splits) (metis snd_conv)+
qed

lemma sanity_checks_keeps:
  "queries_keep_state env \<Longrightarrow> keeps_state (sanity_checks env key val pwd)"
  unfolding sanity_checks_def tmp_get_hardware_info_def tpm_get_nv_indices_def
  by (intro keeps_state_bind keeps_state_lift keeps_state_assert run_command_yaml_keeps
      is_query_simps)

lemma simulates_bind:
  "simulates mt m \<Longrightarrow> (\<And>x. simulates (ft x) (f x)) \<Longrightarrow> simulates (bind mt ft) (bind m f)"
proof (unfold simulates_def, intro allI)
  fix s tr
  assume m: "\<forall>s tr. fst (mt (s, tr)) = fst (m s) \<and> fst (snd (mt (s, tr))) = snd (m s)"
    and f: "\<And>x. \<forall>s tr. fst (ft x (s, tr)) = fst (f x s) \<and> fst (snd (ft x (s, tr))) = snd (f x s)"
  obtain r s1 tr1 where mt: "mt (s, tr) = (r, (s1, tr1))" by (cases "mt (s, tr)") auto
  with m [rule_format, of s tr] have ms: "m s = (r, s1)" by (cases "m s") auto
  show "fst (bind mt ft (s, tr)) = fst (bind m f s)
      \<and> fst (snd (bind mt ft (s, tr))) = snd (bind m f s)"
  proof (cases r)
    case (Inl e)
    with mt ms show ?thesis by (simp add: bind_def)
  next
    case (Inr x)
    with mt ms f [of x, rule_format, of s1 tr1] show ?thesis by (simp add: bind_def)
  qed
qed

lemma simulates_lift: "simulates (lift r) (lift r)"
  by (simp add: simulates_def lift_def)

lemma simulates_assert: "simulates (assert b site) (assert b site)"
  by (simp add: simulates_def assert_def return_def raise_def)

lemma simulates_return: "simulates (return x) (return x)"
  by (simp add: simulates_def return_def)

lemma run_command_simulates:
  "simulates (run_command (traced env) command inp) (run_command env command inp)"
  by (auto simp: simulates_def run_command_def traced_simps argv_error_traced
      split: run_outcome.splits prod.splits option.splits)

lemma run_command_yaml_simulates:
  "simulates (run_command_yaml (traced env) command) (run_command_yaml env command)"
  by (auto simp: simulates_def run_command_yaml_def traced_simps argv_error_traced
      split: run_outcome.splits prod.splits option.splits)

lemma read_tail_simulates:
  "simulates
     (\<lambda>s. case run_command (traced env) command None s of
            (Inr result, s') \<Rightarrow>
              (case utf8_decode (stdout result) of
                 Some result_str \<Rightarrow> (Inr (Text result_str), s')
               | None \<Rightarrow> (Inr (Caught UnicodeDecodeError), s'))
          | (Inl (SystemExit c rc out err), s') \<Rightarrow> (Inl (SystemExit c rc out err), s')
          | (Inl e, s') \<Rightarrow> (Inr (Caught e), s'))
     (\<lambda>s. case run_command env command None s of
            (Inr result, s') \<Rightarrow>
              (case utf8_decode (stdout result) of
                 Some result_str \<Rightarrow> (Inr (Text result_str), s')
               | None \<Rightarrow> (Inr (Caught UnicodeDecodeError), s'))
          | (Inl (SystemExit c rc out err), s') \<Rightarrow> (Inl (SystemExit c rc out err), s')
          | (Inl e, s') \<Rightarrow> (Inr (Caught e), s'))"
proof (unfold simulates_def, intro allI)
  fix s tr
  obtain r s1 where plain: "run_command env command None s = (r, s1)"
    by (cases "run_command env command None s")
  obtain r' s1' tr1 where tr: "run_command (traced env) command None (s, tr) = (r', (s1', tr1))"
    by (cases "run_command (traced env) command None (s, tr)") auto
  from run_command_simulates [of env command None] plain tr have same: "r' = r" "s1' = s1"
    unfolding simulates_def by (metis fst_conv snd_conv)+
  show "fst (case run_command (traced env) command None (s, tr) of
            (Inr result, s') \<Rightarrow>
              (case utf8_decode (stdout result) of
                 Some result_str \<Rightarrow> (Inr (Text result_str), s')
               | None \<Rightarrow> (Inr (Caught UnicodeDecodeError), s'))
          | (Inl (SystemExit c rc out err), s') \<Rightarrow> (Inl (SystemExit c rc out err), s')
          | (Inl e, s') \<Rightarrow> (Inr (Caught e), s'))
      = fst (case run_command env command None s of
            (Inr result, s') \<Rightarrow>
              (case utf8_decode (stdout result) of
                 Some result_str \<Rightarrow> (Inr (Text result_str), s')
               | None \<Rightarrow> (Inr (Caught UnicodeDecodeError), s'))
          | (Inl (SystemExit c rc out err), s') \<Rightarrow> (Inl (SystemExit c rc out err), s')
          | (Inl e, s') \<Rightarrow> (Inr (Caught e), s'))
     \<and> fst (snd (case run_command (traced env) command None (s, tr) of
            (Inr result, s') \<Rightarrow>
              (case utf8_decode (stdout result) of
                 Some result_str \<Rightarrow> (Inr (Text result_str), s')
               | None \<Rightarrow> (Inr (Caught UnicodeDecodeError), s'))
          | (Inl (SystemExit c rc out err), s') \<Rightarrow> (Inl (SystemExit c rc out err), s')
          | (Inl e, s') \<Rightarrow> (Inr (Caught e), s')))
      = snd (case run_command env command None s of
            (Inr result, s') \<Rightarrow>
              (case utf8_decode (stdout result) of
                 Some result_str \<Rightarrow> (Inr (Text result_str), s')
               | None \<Rightarrow> (Inr (Caught UnicodeDecodeError), s'))
          | (Inl (SystemExit c rc out err), s') \<Rightarrow> (Inl (SystemExit c rc out err), s')
          | (Inl e, s') \<Rightarrow> (Inr (Caught e), s'))"
    unfolding plain tr same
    by (cases r) (simp_all split: error.splits option.splits)
qed

lemma read_simulates:
  "simulates (tpm_read_nvm (traced env) index pwd) (tpm_read_nvm env index pwd)"
  unfolding tpm_read_nvm_def tpm_get_nv_index_metadata_def tpm_get_nv_indices_def
    Let_def py_str_traced
  by (intro simulates_bind simulates_lift simulates_assert run_command_yaml_simulates
      read_tail_simulates)

lemma sanity_checks_simulates:
  "simulates (sanity_checks (traced env) key val pwd) (sanity_checks env key val pwd)"
  unfolding sanity_checks_def tmp_get_hardware_info_def tpm_get_nv_indices_def
  by (intro simulates_bind simulates_lift simulates_assert run_command_yaml_simulates)

lemma define_and_write_simulates:
  "simulates (define_and_write (traced env) key val pwd) (define_and_write env key val pwd)"
  unfolding define_and_write_def
  by (intro simulates_bind simulates_lift simulates_assert run_command_yaml_simulates
      run_command_simulates)

lemma tpm_write_simulates:
  "simulates (tpm_write (traced env) key val pwd) (tpm_write env key val pwd)"
  unfolding tpm_write_parts verify_write_def
  by (intro simulates_bind simulates_assert sanity_checks_simulates define_and_write_simulates
      read_simulates)

lemma simulatesD:
  "simulates mt m \<Longrightarrow> mt (s, tr) = (r, (s', tr')) \<Longrightarrow> m s = (r, s')"
  unfolding simulates_def by (metis fst_conv prod.collapse snd_conv)

lemma keeps_stateD: "keeps_state m \<Longrightarrow> m s = (r, s') \<Longrightarrow> s' = s"
  unfolding keeps_state_def by (metis snd_conv)



lemma tool_names_differ:
  "lit ''tpm2_getcap'' \<noteq> lit ''tpm2_nvdefine''"
  "lit ''tpm2_getcap'' \<noteq> lit ''tpm2_nvwrite''"
  "lit ''tpm2_getcap'' \<noteq> lit ''tpm2_nvundefine''"
  "lit ''tpm2_nvreadpublic'' \<noteq> lit ''tpm2_nvdefine''"
  "lit ''tpm2_nvreadpublic'' \<noteq> lit ''tpm2_nvwrite''"
  "lit ''tpm2_nvreadpublic'' \<noteq> lit ''tpm2_nvundefine''"
  "lit ''tpm2_nvread'' \<noteq> lit ''tpm2_nvdefine''"
  "lit ''tpm2_nvread'' \<noteq> lit ''tpm2_nvwrite''"
  "lit ''tpm2_nvread'' \<noteq> lit ''tpm2_nvundefine''"
  by (simp_all add: lit_def)

lemma snd_nvread: "snd (nvread t a n pw) = t"
  by (simp add: nvread_def failed_def split: option.splits prod.splits)

lemma snd_failed: "snd (failed msg t) = t"
  by (simp add: failed_def)

lemma sample_queries_keep_state: "queries_keep_state sample_env"
  unfolding queries_keep_state_def
proof (intro allI impI)
  fix command inp s
  assume "is_query command"
  then have "hd command = lit ''tpm2_getcap'' \<or> hd command = lit ''tpm2_nvreadpublic''
      \<or> hd command = lit ''tpm2_nvread''"
    by (simp add: is_query_def)
  then have no: "hd command \<noteq> lit ''tpm2_nvdefine''" "hd command \<noteq> lit ''tpm2_nvwrite''"
    "hd command \<noteq> lit ''tpm2_nvundefine''"
    using tool_names_differ by auto
  have "snd (sample_run command inp s) = s"
    unfolding sample_run_def
    by (simp add: no snd_nvread snd_failed split: option.splits)
  then show "snd (subprocess_run sample_env command inp s) = s"
    by (simp add: sample_env_def)
qed

lemma getcap_not_mutating: "\<not> mutating (lit ''tpm2_getcap'' # args)"
  by (simp add: mutating_def tool_names_differ)

lemma verify_write_Inr:
  "verify_write env key val pwd s = (Inr u, s') \<Longrightarrow> tpm_read_nvm env key pwd s = (Inr (Text val), s')"
  by (auto simp: verify_write_def bind_Inr_iff assert_def return_def raise_def split: if_splits)

text \<open>
  C1. Round trip: when the querying commands leave the device as it is, a call of
  \<^verbatim>\<open>tpm_write\<close> that returns is followed by a \<^verbatim>\<open>tpm_read_nvm\<close> of the same key and password
  that returns exactly the written value.
\<close>

theorem round_trip:
  assumes "queries_keep_state env"
    and "tpm_write env key val pwd s = (Inr (), s')"
  shows "tpm_read_nvm env key pwd s' = (Inr (Text val), s')"
proof -
  from assms(2) obtain s2 where "verify_write env key val pwd s2 = (Inr (), s')"
    unfolding tpm_write_parts bind_Inr_iff by blast
  then have read: "tpm_read_nvm env key pwd s2 = (Inr (Text val), s')"
    by (rule verify_write_Inr)
  from keeps_stateD [OF read_keeps [OF assms(1)] read] have "s' = s2" .
  with read show ?thesis by simp
qed

theorem round_trip_witness:
  "queries_keep_state sample_env
   \<and> tpm_write sample_env 25165843 (lit ''abcyoo'') (Some (lit ''abcde'')) tpm0
       = (Inr (), tpm_protected)
   \<and> tpm_read_nvm sample_env 25165843 (Some (lit ''abcde'')) tpm_protected
       = (Inr (Text (lit ''abcyoo'')), tpm_protected)"
  using round_trip [OF sample_queries_keep_state sample_write_protected_plain]
    sample_queries_keep_state sample_write_protected_plain
  by simp

text \<open>
  C6. When \<^verbatim>\<open>tpm_write\<close> fails one of its validation assertions (range, the two sizes,
  key already used, password too short), the only commands it has run are the two
  \<^verbatim>\<open>tpm2_getcap\<close> queries: no define, write or undefine. If the queries leave the device as
  it is, the device is in the state it was in, and the enumeration of the indices gives what
  it gave before the call.
\<close>

theorem validation_failure_changes_nothing:
  assumes "validation_site site"
    and "tpm_write (traced env) key val pwd (s, tr) = (Inl (AssertionError site), (s', tr'))"
  shows "(\<exists>new. tr' = tr @ new
            \<and> (\<forall>c\<in>set new. \<not> mutating (fst c)
                  \<and> c \<in> {([lit ''tpm2_getcap'', lit ''properties-fixed''], None),
                          ([lit ''tpm2_getcap'', lit ''handles-nv-index''], None)}))
       \<and> (queries_keep_state env \<longrightarrow>
            s' = s \<and> tpm_get_nv_indices env s' = tpm_get_nv_indices env s)"
proof -
  let ?P = "\<lambda>c. \<not> mutating (fst c)
                  \<and> c \<in> {([lit ''tpm2_getcap'', lit ''properties-fixed''], None),
                          ([lit ''tpm2_getcap'', lit ''handles-nv-index''], None)}"
  let ?rest = "bind (define_and_write (traced env) key val pwd)
                 (\<lambda>_. verify_write (traced env) key val pwd)"
  have rest: "raises_only (asserts_in {Nv_index_response, Index_exists, Read_back}) ?rest"
    by (intro raises_only_bind define_and_write_raises verify_raises) auto
  from assms(2) have "sanity_checks (traced env) key val pwd (s, tr)
      = (Inl (AssertionError site), (s', tr'))
    \<or> (\<exists>s1. ?rest s1 = (Inl (AssertionError site), (s', tr')))"
    unfolding tpm_write_parts bind_Inl_iff by blast
  moreover have "\<And>s1. ?rest s1 \<noteq> (Inl (AssertionError site), (s', tr'))"
  proof
    fix s1 assume "?rest s1 = (Inl (AssertionError site), (s', tr'))"
    with rest have "asserts_in {Nv_index_response, Index_exists, Read_back} (AssertionError site)"
      unfolding raises_only_def by blast
    with assms(1) show False by (auto simp: asserts_in_def validation_site_def)
  qed
  ultimately have checks: "sanity_checks (traced env) key val pwd (s, tr)
      = (Inl (AssertionError site), (s', tr'))" by blast
  have "issues_only ?P (sanity_checks (traced env) key val pwd)"
    by (rule sanity_checks_issues) (simp_all add: getcap_not_mutating)
  from issues_onlyD [OF this checks]
  have trace: "\<exists>new. tr' = tr @ new \<and> (\<forall>c\<in>set new. ?P c)" .
  have "queries_keep_state env \<longrightarrow> s' = s"
  proof
    assume q: "queries_keep_state env"
    from simulatesD [OF sanity_checks_simulates checks]
    have "sanity_checks env key val pwd s = (Inl (AssertionError site), s')" .
    from keeps_stateD [OF sanity_checks_keeps [OF q] this] show "s' = s" .
  qed
  with trace show ?thesis by blast
qed

lemma sample_write_duplicate:
  "tpm_write (traced sample_env) 25165824 (lit ''abcyo'') None (tpm0, []) =
     (Inl (AssertionError Key_unused), (tpm0,
       [([lit ''tpm2_getcap'', lit ''properties-fixed''], None),
        ([lit ''tpm2_getcap'', lit ''handles-nv-index''], None)]))"
  by (simp add: io_eval program_eval sample_eval traced_def)

theorem validation_failure_changes_nothing_witness:
  "validation_site Key_unused
   \<and> tpm_write (traced sample_env) 25165824 (lit ''abcyo'') None (tpm0, []) =
     (Inl (AssertionError Key_unused), (tpm0,
       [([lit ''tpm2_getcap'', lit ''properties-fixed''], None),
        ([lit ''tpm2_getcap'', lit ''handles-nv-index''], None)]))
   \<and> queries_keep_state sample_env
   \<and> \<not> mutating [lit ''tpm2_getcap'', lit ''properties-fixed'']
   \<and> \<not> mutating [lit ''tpm2_getcap'', lit ''handles-nv-index'']
   \<and> tpm_get_nv_indices sample_env tpm0 = tpm_get_nv_indices sample_env tpm0"
proof -
  let ?first = "([lit ''tpm2_getcap'', lit ''properties-fixed''], None :: bytes option)"
  let ?second = "([lit ''tpm2_getcap'', lit ''handles-nv-index''], None :: bytes option)"
  have site: "validation_site Key_unused" by (simp add: validation_site_def)
  note fact = validation_failure_changes_nothing [OF site sample_write_duplicate]
  from fact have "\<exists>new. [?first, ?second] = [] @ new
      \<and> (\<forall>c\<in>set new. \<not> mutating (fst c) \<and> c \<in> {?first, ?second})"
    by (rule conjunct1)
  then have queries: "\<not> mutating (fst ?first) \<and> \<not> mutating (fst ?second)"
  proof (elim exE conjE)
    fix new
    assume eq: "[?first, ?second] = [] @ new"
      and all: "\<forall>c\<in>set new. \<not> mutating (fst c) \<and> c \<in> {?first, ?second}"
    from eq have new: "new = [?first, ?second]" unfolding append_Nil by (rule sym)
    have "?first \<in> set new" "?second \<in> set new" unfolding new by simp_all
    with all show ?thesis by blast
  qed
  show ?thesis
  proof (intro conjI)
    show "validation_site Key_unused" by (rule site)
    show "queries_keep_state sample_env" by (rule sample_queries_keep_state)
    from queries show "\<not> mutating [lit ''tpm2_getcap'', lit ''properties-fixed'']"
      unfolding fst_conv by (rule conjunct1)
    from queries show "\<not> mutating [lit ''tpm2_getcap'', lit ''handles-nv-index'']"
      unfolding fst_conv by (rule conjunct2)
  qed (rule sample_write_duplicate refl)+
qed





end
